theory Spec2Isabelle
  imports Complex_Main "HOL-Library.AList" "HOL-Library.Log_Nat" "HOL-Library.Code_Target_Nat"
begin

section \<open>Values shared by the three modules\<close>

text \<open>
  The repository holds callbacks for a host trading engine. The host's objects are read
  through their attributes only, so each of them is a record of the attributes the callbacks
  touch. Numbers that reach the callbacks as Python floats are finite and are kept as the
  rational number the float denotes; comparisons of floats are then comparisons of rationals.
\<close>

datatype py_error = IndexError | KeyError | ValueError | AttributeError | OverflowError

type_synonym symbol = string

text \<open>One line written with \<^verbatim>\<open>algorithm.Log\<close>; the number or text put into the line is kept as data.\<close>

datatype log_line =
    CoarseCount nat
  | SmallCapCount nat
  | LowPECount nat
  | StockLine symbol rat

section \<open>Python floats\<close>

text \<open>
  \<^verbatim>\<open>DetermineTargetPercent\<close> computes \<^verbatim>\<open>1.0 / count\<close>, a division of IEEE-754 binary64
  numbers. A finite binary64 number is a rational, and the operation returns the exact result
  rounded to 53 significant bits, to nearest, ties to the even significand. \<open>binary64\<close> is
  that rounding, with the exponent left unbounded: it is the rounding of the machine for every
  argument of magnitude between \<open>2 powi - 1022\<close> and the largest finite double, which
  covers the quotients \<open>1 / count\<close> of every list the interpreter can hold.
\<close>

definition round_half_even :: "rat \<Rightarrow> int" where
  "round_half_even y =
     (let f = \<lfloor>y\<rfloor>; r = y - of_int f
      in if r < 1 / 2 then f else if 1 / 2 < r then f + 1 else if even f then f else f + 1)"

text \<open>The exponent \<open>e\<close> with \<open>2 powi e \<le> x < 2 powi (e + 1)\<close>, for positive \<open>x\<close>.\<close>

definition ilog2 :: "rat \<Rightarrow> int" where
  "ilog2 x =
     (let (p, q) = quotient_of x; d = bitlen p - bitlen q
      in if 2 powi d \<le> x then d else d - 1)"

definition binary64 :: "rat \<Rightarrow> rat" where
  "binary64 x =
     (if x = 0 then 0
      else
        let e = ilog2 \<bar>x\<bar>;
            m = round_half_even (\<bar>x\<bar> * 2 powi (52 - e))
        in sgn x * of_int m * 2 powi (e - 52))"

text \<open>
  \<^verbatim>\<open>x / n\<close> for a float \<open>x\<close> and a nonzero Python int \<open>n\<close>: the int is converted to a float,
  then the floats are divided.
\<close>

definition float_truediv_int :: "rat \<Rightarrow> int \<Rightarrow> rat" where
  "float_truediv_int x n = binary64 (x / binary64 (of_int n))"

text \<open>
  The percentile works on data of any magnitude, so there the smallest exponent of the doubles
  counts as well: \<open>float64_nearest\<close> rounds as \<open>binary64\<close> does from \<open>2 powi - 1022\<close> on, and
  below it to the nearest multiple of \<open>2 powi - 1074\<close>, ties to the even multiple.
\<close>

definition float64_nearest :: "rat \<Rightarrow> rat" where
  "float64_nearest x =
     (if x = 0 then 0
      else
        let e = max (ilog2 \<bar>x\<bar>) (- 1022);
            m = round_half_even (\<bar>x\<bar> * 2 powi (52 - e))
        in sgn x * of_int m * 2 powi (e - 52))"

section \<open>Universe selection: SmallCapsLowPERatioUniverseSelection.py\<close>

record CoarseFundamental =
  CoarseSymbol :: symbol
  HasFundamentalData :: bool
  Price :: rat

record FineFundamental =
  FineSymbol :: symbol
  MarketCap :: rat
  PERatio :: rat

text \<open>What the selection callbacks see of \<^verbatim>\<open>algorithm\<close>: the year of \<^verbatim>\<open>algorithm.Time\<close> and the log.\<close>

record SelectionAlgorithm =
  TimeYear :: int
  LogLines :: "log_line list"

definition Log :: "SelectionAlgorithm \<Rightarrow> log_line \<Rightarrow> SelectionAlgorithm" where
  "Log algorithm line = algorithm\<lparr>LogLines := LogLines algorithm @ [line]\<rparr>"

record SmallCapsLowPERatioUniverseSelectionModel =
  periodCheck :: int

text \<open>\<^verbatim>\<open>__init__\<close>: \<^verbatim>\<open>self.periodCheck = -1\<close>.\<close>

definition UniverseInit :: SmallCapsLowPERatioUniverseSelectionModel where
  "UniverseInit = \<lparr>periodCheck = - 1\<rparr>"

text \<open>
  \<^verbatim>\<open>SelectCoarse\<close> returns either the host's marker \<^verbatim>\<open>Universe.Unchanged\<close> or a list of symbols.
\<close>

datatype coarse_result = Unchanged | Symbols "symbol list"

definition filterCoarse :: "CoarseFundamental list \<Rightarrow> CoarseFundamental list" where
  "filterCoarse coarse = filter (\<lambda>x. HasFundamentalData x \<and> Price x > 5) coarse"

definition SelectCoarse ::
  "SmallCapsLowPERatioUniverseSelectionModel \<Rightarrow> SelectionAlgorithm \<Rightarrow> CoarseFundamental list
    \<Rightarrow> coarse_result \<times> SmallCapsLowPERatioUniverseSelectionModel \<times> SelectionAlgorithm" where
  "SelectCoarse self algorithm coarse =
     (if TimeYear algorithm = periodCheck self then (Unchanged, self, algorithm)
      else
        let self' = self\<lparr>periodCheck := TimeYear algorithm\<rparr>;
            algorithm' = Log algorithm (CoarseCount (length (filterCoarse coarse)));
            coarseSelection = map CoarseSymbol (filterCoarse coarse)
        in (Symbols coarseSelection, self', algorithm'))"

subsection \<open>The percentile of numpy\<close>

text \<open>
  Indexing as Python and numpy do it: a negative index counts from the end, and an index
  outside the list raises \<^verbatim>\<open>IndexError\<close>.
\<close>

definition py_index :: "'a list \<Rightarrow> int \<Rightarrow> py_error + 'a" where
  "py_index xs i =
     (if 0 \<le> i \<and> i < int (length xs) then Inr (xs ! nat i)
      else if i < 0 \<and> - int (length xs) \<le> i then Inr (xs ! nat (int (length xs) + i))
      else Inl IndexError)"

text \<open>
  \<^verbatim>\<open>np.percentile(a, q)\<close> with numpy's default method, the linear one. numpy is a library the
  repository calls, and the repository names no version of it, so this follows the routine of
  the current library (\<^verbatim>\<open>_quantile\<close> with \<^verbatim>\<open>_get_indexes\<close>, \<^verbatim>\<open>_get_gamma\<close> and \<^verbatim>\<open>_lerp\<close>), in binary64 as
  the library computes:
  \<^item> the quantile \<^verbatim>\<open>q / 100\<close> has to lie between 0 and 1, else \<^verbatim>\<open>ValueError\<close>;
  \<^item> the virtual index is \<^verbatim>\<open>(n - 1) * quantile\<close>; the entries read are the one at its floor
    and the next one, both the first entry for a negative virtual index and both the last
    entry (index \<^verbatim>\<open>-1\<close>) for one that is not below \<^verbatim>\<open>n - 1\<close>;
  \<^item> the data are sorted at the positions read, and the last entry is read to look for a NaN:
    of an empty array this read is the \<^verbatim>\<open>IndexError\<close> numpy reports;
  \<^item> the weight \<^verbatim>\<open>gamma\<close> is the virtual index minus the index of the entry below, and the
    result is \<^verbatim>\<open>_lerp\<close> of the two entries: \<^verbatim>\<open>a + (b - a) * t\<close>, replaced by
    \<^verbatim>\<open>b - (b - a) * (1 - t)\<close> where \<^verbatim>\<open>t >= 0.5\<close>.
  Every operation is rounded by \<open>float64_nearest\<close>. The data are taken to be doubles of one
  sign, as the positive P/E ratios are, for which no operation of the routine overflows.
\<close>

definition np_lerp :: "rat \<Rightarrow> rat \<Rightarrow> rat \<Rightarrow> rat" where
  "np_lerp a b t =
     (let diff_b_a = float64_nearest (b - a);
          lerp_interpolation = float64_nearest (a + float64_nearest (diff_b_a * t))
      in if t \<ge> 1 / 2
         then float64_nearest (b - float64_nearest (diff_b_a * float64_nearest (1 - t)))
         else lerp_interpolation)"

definition np_percentile :: "rat list \<Rightarrow> rat \<Rightarrow> py_error + rat" where
  "np_percentile a q =
     (let quantile = float64_nearest (q / 100)
      in if quantile < 0 \<or> 1 < quantile then Inl ValueError
         else
           let arr = sort a;
               values_count = int (length a);
               virtual_index =
                 float64_nearest (float64_nearest (of_int (values_count - 1)) * quantile);
               previous_index =
                 (if virtual_index < 0 then 0
                  else if virtual_index \<ge> of_int (values_count - 1) then - 1
                  else \<lfloor>virtual_index\<rfloor>);
               next_index =
                 (if virtual_index < 0 then 0
                  else if virtual_index \<ge> of_int (values_count - 1) then - 1
                  else \<lfloor>virtual_index\<rfloor> + 1);
               gamma = float64_nearest (virtual_index - float64_nearest (of_int previous_index))
           in case py_index arr (- 1) of
                Inl e \<Rightarrow> Inl e
              | Inr last_entry \<Rightarrow>
                  (case py_index arr previous_index of
                     Inl e \<Rightarrow> Inl e
                   | Inr previous \<Rightarrow>
                       (case py_index arr next_index of
                          Inl e \<Rightarrow> Inl e
                        | Inr next_entry \<Rightarrow> Inr (np_lerp previous next_entry gamma))))"

subsection \<open>SelectFine\<close>

definition filterFine :: "FineFundamental list \<Rightarrow> FineFundamental list" where
  "filterFine fine =
     filter (\<lambda>x. 300000000 < MarketCap x \<and> MarketCap x < 2000000000 \<and> PERatio x > 0) fine"

definition peRatios :: "FineFundamental list \<Rightarrow> rat list" where
  "peRatios fine = map PERatio (filterFine fine)"

definition lowestPERatio :: "rat \<Rightarrow> FineFundamental list \<Rightarrow> FineFundamental list" where
  "lowestPERatio lowestPERatioPercentile fine =
     filter (\<lambda>x. PERatio x \<le> lowestPERatioPercentile) (filterFine fine)"

text \<open>
  \<^verbatim>\<open>SelectFine\<close> has written its first log line when \<^verbatim>\<open>np.percentile\<close> raises, so the algorithm
  is returned together with either the error or the selection.
\<close>

definition SelectFine ::
  "SelectionAlgorithm \<Rightarrow> FineFundamental list \<Rightarrow> (py_error + symbol list) \<times> SelectionAlgorithm" where
  "SelectFine algorithm fine =
     (let algorithm1 = Log algorithm (SmallCapCount (length (filterFine fine)))
      in case np_percentile (peRatios fine) 1 of
           Inl e \<Rightarrow> (Inl e, algorithm1)
         | Inr lowestPERatioPercentile \<Rightarrow>
             let selected = lowestPERatio lowestPERatioPercentile fine;
                 algorithm2 = Log algorithm1 (LowPECount (length selected));
                 algorithm3 = fold (\<lambda>x alg. Log alg (StockLine (FineSymbol x) (PERatio x)))
                                selected algorithm2;
                 fineSelection = map FineSymbol selected
             in (Inr fineSelection, algorithm3))"

section \<open>Portfolio construction: CustomEqualWeightingPortfolioConstruction.py\<close>

subsection \<open>The host's values\<close>

text \<open>\<^verbatim>\<open>InsightDirection\<close> is the host's enumeration; Python reads it as the integer below.\<close>

datatype InsightDirection = Down | Flat | Up

fun direction_value :: "InsightDirection \<Rightarrow> int" where
  "direction_value Up = 1"
| "direction_value Flat = 0"
| "direction_value Down = - 1"

text \<open>
  Times are counted in microseconds from \<^verbatim>\<open>datetime.min\<close>, so \<^verbatim>\<open>UTCMIN\<close> is 0. Insights are
  host objects and a Python dict keys them by identity; \<open>InsightId\<close> is the host's identifier
  of the object.
\<close>

definition UTCMIN :: nat where
  "UTCMIN = 0"

record Insight =
  InsightId :: nat
  Symbol :: symbol
  Direction :: InsightDirection
  GeneratedTimeUtc :: nat
  CloseTimeUtc :: nat

record PortfolioTarget =
  TargetSymbol :: symbol
  Quantity :: rat

record SecurityHolding =
  Invested :: bool
  IsLong :: bool
  IsShort :: bool

text \<open>
  What \<^verbatim>\<open>CreateTargets\<close> reads of \<^verbatim>\<open>algorithm\<close>: the clock, the holdings by symbol (the host
  raises for a symbol it does not know) and the host's \<^verbatim>\<open>PortfolioTarget.Percent\<close>, which
  gives a target or \<^verbatim>\<open>None\<close>.
\<close>

record QCAlgorithm =
  UtcTime :: nat
  Portfolio :: "(symbol \<times> SecurityHolding) list"
  PortfolioTarget_Percent :: "symbol \<Rightarrow> rat \<Rightarrow> PortfolioTarget option"

text \<open>
  \<^verbatim>\<open>InsightCollection\<close> is a class of the host. The model takes its methods as they are
  called, over any representation \<open>'c\<close> of the collection.
\<close>

record 'c InsightCollection =
  Add :: "'c \<Rightarrow> Insight \<Rightarrow> 'c"
  GetActiveInsights :: "'c \<Rightarrow> nat \<Rightarrow> Insight list"
  RemoveExpiredInsights :: "'c \<Rightarrow> nat \<Rightarrow> Insight list \<times> 'c"
  HasActiveInsights :: "'c \<Rightarrow> symbol \<Rightarrow> nat \<Rightarrow> bool"
  GetNextExpiryTime :: "'c \<Rightarrow> nat option"
  Clear :: "'c \<Rightarrow> symbol list \<Rightarrow> 'c"

record Security =
  SecuritySymbol :: symbol

record SecurityChanges =
  AddedSecurities :: "Security list"
  RemovedSecurities :: "Security list"

subsection \<open>The model's state and its constructor\<close>

text \<open>
  \<open>rebalancing\<close> is the truth value of \<^verbatim>\<open>self.rebalancing\<close>; \<open>rebalancingFunc\<close> is the number
  of microseconds the function adds, and \<open>None\<close> when the attribute was never set.
\<close>

record 'c CustomEqualWeightingPortfolioConstructionModel =
  insightCollection :: 'c
  removedSymbols :: "symbol list option"
  nextExpiryTime :: nat
  rebalancingTime :: nat
  rebalancing :: bool
  rebalancingFunc :: "nat option"

definition microseconds_per_day :: nat where
  "microseconds_per_day = 86400000000"

text \<open>\<^verbatim>\<open>datetime.max\<close>, and the addition of a \<^verbatim>\<open>timedelta\<close>, which raises beyond it.\<close>

definition datetime_max :: nat where
  "datetime_max = 3652059 * microseconds_per_day - 1"

definition datetime_add :: "nat \<Rightarrow> nat \<Rightarrow> py_error + nat" where
  "datetime_add dt delta = (if dt + delta > datetime_max then Inl OverflowError else Inr (dt + delta))"

text \<open>
  \<^verbatim>\<open>__init__\<close>; \<open>fresh\<close> is the host's \<^verbatim>\<open>InsightCollection()\<close>. The parameter is \<^verbatim>\<open>False\<close> (0) or
  a number of days; \<^verbatim>\<open>timedelta\<close> takes at most 999999999 days.
\<close>

definition Init :: "'c \<Rightarrow> int \<Rightarrow> py_error + 'c CustomEqualWeightingPortfolioConstructionModel" where
  "Init fresh rebalancingParam =
     (let self = \<lparr>insightCollection = fresh, removedSymbols = Some [], nextExpiryTime = UTCMIN,
                  rebalancingTime = UTCMIN, rebalancing = False, rebalancingFunc = None\<rparr>
      in if rebalancingParam > 0 then
           if rebalancingParam > 999999999 then Inl OverflowError
           else Inr (self\<lparr>rebalancing := True,
                          rebalancingFunc := Some (nat rebalancingParam * microseconds_per_day)\<rparr>)
         else Inr (self\<lparr>rebalancing := (rebalancingParam \<noteq> 0)\<rparr>))"

subsection \<open>DetermineTargetPercent\<close>

text \<open>
  The result is a Python dict, kept as the list of its items in insertion order:
  \<open>AList.update\<close> replaces the value of a key that is present and appends a new key.
\<close>

definition count_not_flat :: "Insight list \<Rightarrow> nat" where
  "count_not_flat lastActiveInsights = length (filter (\<lambda>x. Direction x \<noteq> Flat) lastActiveInsights)"

definition equal_percent :: "nat \<Rightarrow> rat" where
  "equal_percent count = (if count = 0 then 0 else float_truediv_int 1 (int count))"

definition DetermineTargetPercent :: "Insight list \<Rightarrow> (Insight \<times> rat) list" where
  "DetermineTargetPercent lastActiveInsights =
     (let count = count_not_flat lastActiveInsights;
          percent = equal_percent count
      in fold (\<lambda>insight result.
                 AList.update insight (of_int (direction_value (Direction insight)) * percent) result)
           lastActiveInsights [])"

subsection \<open>ShouldCreateTargets\<close>

fun insight_asks_rebalance :: "QCAlgorithm \<Rightarrow> Insight list \<Rightarrow> py_error + bool" where
  "insight_asks_rebalance algorithm [] = Inr False"
| "insight_asks_rebalance algorithm (insight # rest) =
     (case map_of (Portfolio algorithm) (Symbol insight) of
        None \<Rightarrow> Inl KeyError
      | Some holding \<Rightarrow>
          if \<not> Invested holding \<and> Direction insight \<noteq> Flat then Inr True
          else if IsLong holding \<and> Direction insight \<noteq> Up then Inr True
          else if IsShort holding \<and> Direction insight \<noteq> Down then Inr True
          else insight_asks_rebalance algorithm rest)"

definition ShouldCreateTargets ::
  "'c CustomEqualWeightingPortfolioConstructionModel \<Rightarrow> QCAlgorithm \<Rightarrow> Insight list
    \<Rightarrow> py_error + bool" where
  "ShouldCreateTargets self algorithm lastActiveInsights =
     (if rebalancing self \<and> UtcTime algorithm \<ge> rebalancingTime self then Inr True
      else insight_asks_rebalance algorithm lastActiveInsights)"

subsection \<open>OnSecuritiesChanged\<close>

definition OnSecuritiesChanged ::
  "'c InsightCollection \<Rightarrow> 'c CustomEqualWeightingPortfolioConstructionModel \<Rightarrow> SecurityChanges
    \<Rightarrow> 'c CustomEqualWeightingPortfolioConstructionModel" where
  "OnSecuritiesChanged host self changes =
     (let removed = map SecuritySymbol (RemovedSecurities changes)
      in self\<lparr>removedSymbols := Some removed,
              insightCollection := Clear host (insightCollection self) removed\<rparr>)"

subsection \<open>CreateTargets\<close>

text \<open>\<^verbatim>\<open>itertools.groupby\<close>: the runs of neighbouring entries with equal key, each with its key.\<close>

function groupby :: "('a \<Rightarrow> 'k) \<Rightarrow> 'a list \<Rightarrow> ('k \<times> 'a list) list" where
  "groupby key [] = []"
| "groupby key (x # xs) =
     (key x, x # takeWhile (\<lambda>y. key y = key x) xs) # groupby key (dropWhile (\<lambda>y. key y = key x) xs)"
  by pat_completeness auto
termination
  by (relation "measure (\<lambda>(key, xs). length xs)") (auto simp: length_dropWhile_le less_Suc_eq_le)

text \<open>
  The last generated active insight of each group: \<^verbatim>\<open>sorted(g, key = ...)[-1]\<close>. Python's sort
  is stable, as \<open>sort_key\<close> is, and a group is never empty.
\<close>

definition lastActiveInsights :: "Insight list \<Rightarrow> Insight list" where
  "lastActiveInsights activeInsights =
     map (\<lambda>(symbol, g). last (sort_key GeneratedTimeUtc g)) (groupby Symbol activeInsights)"

text \<open>
  The loop over the last active insights (lines 91 to 96): a target that is not \<^verbatim>\<open>None\<close> is
  appended, and the symbol of one that is \<^verbatim>\<open>None\<close> is put into the dict \<^verbatim>\<open>errorSymbols\<close>.
  A Python list can hold \<^verbatim>\<open>None\<close>, so the targets are a list of options.
\<close>

fun percent_targets ::
  "QCAlgorithm \<Rightarrow> (Insight \<times> rat) list \<Rightarrow> Insight list
    \<Rightarrow> PortfolioTarget option list \<times> (symbol \<times> symbol) list
    \<Rightarrow> py_error + PortfolioTarget option list \<times> (symbol \<times> symbol) list" where
  "percent_targets algorithm percents [] (targets, errorSymbols) = Inr (targets, errorSymbols)"
| "percent_targets algorithm percents (insight # rest) (targets, errorSymbols) =
     (case map_of percents insight of
        None \<Rightarrow> Inl KeyError
      | Some percent \<Rightarrow>
          let target = PortfolioTarget_Percent algorithm (Symbol insight) percent
          in if target \<noteq> None
             then percent_targets algorithm percents rest (targets @ [target], errorSymbols)
             else percent_targets algorithm percents rest
                    (targets, AList.update (Symbol insight) (Symbol insight) errorSymbols))"

text \<open>
  Lines 99 and 100. When \<^verbatim>\<open>self.rebalancing\<close> is true and \<^verbatim>\<open>__init__\<close> did not set
  \<^verbatim>\<open>rebalancingFunc\<close>, reading the attribute raises.
\<close>

definition update_rebalancing_time ::
  "'c CustomEqualWeightingPortfolioConstructionModel \<Rightarrow> QCAlgorithm \<Rightarrow> py_error + nat" where
  "update_rebalancing_time self algorithm =
     (if rebalancing self then
        (case rebalancingFunc self of
           None \<Rightarrow> Inl AttributeError
         | Some delta \<Rightarrow> datetime_add (UtcTime algorithm) delta)
      else Inr (rebalancingTime self))"

text \<open>The flatten targets of the expired insights (lines 105 to 109).\<close>

definition expiredTargets ::
  "'c InsightCollection \<Rightarrow> 'c \<Rightarrow> nat \<Rightarrow> (symbol \<times> symbol) list \<Rightarrow> Insight list
    \<Rightarrow> PortfolioTarget option list" where
  "expiredTargets host collection now errorSymbols expiredInsights =
     map (\<lambda>(symbol, f). Some \<lparr>TargetSymbol = symbol, Quantity = 0\<rparr>)
       (filter (\<lambda>(symbol, f). \<not> HasActiveInsights host collection symbol now
                                \<and> map_of errorSymbols symbol = None)
          (groupby Symbol expiredInsights))"

text \<open>
  \<^verbatim>\<open>CreateTargets\<close> returns the targets and the model as it leaves it, or the exception.
\<close>

definition CreateTargets ::
  "'c InsightCollection \<Rightarrow> 'c CustomEqualWeightingPortfolioConstructionModel \<Rightarrow> QCAlgorithm
    \<Rightarrow> Insight list
    \<Rightarrow> py_error + PortfolioTarget option list \<times> 'c CustomEqualWeightingPortfolioConstructionModel" where
  "CreateTargets host self algorithm insights =
     (if length insights = 0 \<and> UtcTime algorithm \<le> nextExpiryTime self \<and> removedSymbols self = None
      then Inr ([], self)
      else
        let collection1 = fold (\<lambda>insight c. Add host c insight) insights (insightCollection self);
            targets1 = (case removedSymbols self of
                          None \<Rightarrow> []
                        | Some symbols \<Rightarrow>
                            map (\<lambda>symbol. Some \<lparr>TargetSymbol = symbol, Quantity = 0\<rparr>) symbols);
            activeInsights = GetActiveInsights host collection1 (UtcTime algorithm);
            lastActive = lastActiveInsights activeInsights
        in case ShouldCreateTargets self algorithm lastActive of
             Inl e \<Rightarrow> Inl e
           | Inr should \<Rightarrow>
               (case (if should then
                        (case percent_targets algorithm (DetermineTargetPercent lastActive)
                                lastActive (targets1, []) of
                           Inl e \<Rightarrow> Inl e
                         | Inr (targets2, errorSymbols) \<Rightarrow>
                             (case update_rebalancing_time self algorithm of
                                Inl e \<Rightarrow> Inl e
                              | Inr t \<Rightarrow> Inr (targets2, errorSymbols, t)))
                      else Inr (targets1, [], rebalancingTime self)) of
                  Inl e \<Rightarrow> Inl e
                | Inr (targets2, errorSymbols, rebalancingTime') \<Rightarrow>
                    let (expiredInsights, collection2) =
                          RemoveExpiredInsights host collection1 (UtcTime algorithm);
                        targets3 = targets2 @ expiredTargets host collection2 (UtcTime algorithm)
                                                errorSymbols expiredInsights;
                        next = (case GetNextExpiryTime host collection2 of
                                  None \<Rightarrow> UTCMIN
                                | Some t \<Rightarrow> t)
                    in Inr (targets3,
                            self\<lparr>insightCollection := collection2, removedSymbols := None,
                                 nextExpiryTime := next, rebalancingTime := rebalancingTime'\<rparr>)))"

section \<open>Sums of the assigned percents\<close>

text \<open>
  The absolute values of the values of the dict, their exact sum, and their sum as Python's
  \<^verbatim>\<open>sum\<close> adds floats from left to right, rounding after each addition.
\<close>

definition abs_values :: "(Insight \<times> rat) list \<Rightarrow> rat list" where
  "abs_values percents = map (\<lambda>(insight, percent). \<bar>percent\<bar>) percents"

definition total_abs_percent :: "(Insight \<times> rat) list \<Rightarrow> rat" where
  "total_abs_percent percents = sum_list (abs_values percents)"

definition float_sum :: "rat list \<Rightarrow> rat" where
  "float_sum values = foldl (\<lambda>s v. binary64 (s + v)) 0 values"

section \<open>A host for the examples\<close>

text \<open>
  An insight collection kept as a list, with the host's meaning of expiry: an insight is
  expired once the time is past its close time, and active until then.
\<close>

definition IsExpired :: "Insight \<Rightarrow> nat \<Rightarrow> bool" where
  "IsExpired insight utcTime = (CloseTimeUtc insight < utcTime)"

definition ListInsightCollection :: "Insight list InsightCollection" where
  "ListInsightCollection =
     \<lparr>Add = (\<lambda>c insight. c @ [insight]),
      GetActiveInsights = (\<lambda>c utcTime. filter (\<lambda>i. \<not> IsExpired i utcTime) c),
      RemoveExpiredInsights =
        (\<lambda>c utcTime. (filter (\<lambda>i. IsExpired i utcTime) c, filter (\<lambda>i. \<not> IsExpired i utcTime) c)),
      HasActiveInsights =
        (\<lambda>c symbol utcTime. list_ex (\<lambda>i. Symbol i = symbol \<and> \<not> IsExpired i utcTime) c),
      GetNextExpiryTime =
        (\<lambda>c. case map CloseTimeUtc c of [] \<Rightarrow> None | t # ts \<Rightarrow> Some (fold min ts t)),
      Clear = (\<lambda>c symbols. filter (\<lambda>i. \<not> List.member symbols (Symbol i)) c)\<rparr>"

definition example_insight :: "nat \<Rightarrow> symbol \<Rightarrow> InsightDirection \<Rightarrow> Insight" where
  "example_insight k s d =
     \<lparr>InsightId = k, Symbol = s, Direction = d, GeneratedTimeUtc = 0, CloseTimeUtc = 100\<rparr>"

text \<open>\<open>n\<close> insights of direction Up, for \<open>n\<close> different symbols.\<close>

definition up_insights :: "nat \<Rightarrow> Insight list" where
  "up_insights n = map (\<lambda>k. example_insight k (replicate (Suc k) CHR ''A'') Up) [0..<n]"

text \<open>One insight up, one down and one flat.\<close>

definition example_insights :: "Insight list" where
  "example_insights =
     [example_insight 0 ''AAA'' Up, example_insight 1 ''BBB'' Down, example_insight 2 ''CCC'' Flat]"

definition no_holding :: SecurityHolding where
  "no_holding = \<lparr>Invested = False, IsLong = False, IsShort = False\<rparr>"

text \<open>
  An algorithm at time 10 that holds nothing, knows three symbols and cannot compute a
  target for the first of them.
\<close>

definition example_algorithm :: QCAlgorithm where
  "example_algorithm =
     \<lparr>UtcTime = 10,
      Portfolio = [(''AAA'', no_holding), (''BBB'', no_holding), (''CCC'', no_holding)],
      PortfolioTarget_Percent =
        (\<lambda>symbol percent. if symbol = ''AAA'' then None
                           else Some \<lparr>TargetSymbol = symbol, Quantity = percent * 1000\<rparr>)\<rparr>"

definition example_model :: "Insight list CustomEqualWeightingPortfolioConstructionModel" where
  "example_model =
     \<lparr>insightCollection = [], removedSymbols = Some [], nextExpiryTime = UTCMIN,
      rebalancingTime = UTCMIN, rebalancing = False, rebalancingFunc = None\<rparr>"

text \<open>The model after a call that left no removed symbols, with an insight expiring at 100.\<close>

definition example_idle_model :: "Insight list CustomEqualWeightingPortfolioConstructionModel" where
  "example_idle_model = example_model\<lparr>removedSymbols := None, nextExpiryTime := 100\<rparr>"

definition example_changes :: SecurityChanges where
  "example_changes =
     \<lparr>AddedSecurities = [],
      RemovedSecurities = [\<lparr>SecuritySymbol = ''BBB''\<rparr>, \<lparr>SecuritySymbol = ''CCC''\<rparr>]\<rparr>"

definition example_selection_algorithm :: SelectionAlgorithm where
  "example_selection_algorithm = \<lparr>TimeYear = 2015, LogLines = []\<rparr>"

definition example_coarse :: "CoarseFundamental list" where
  "example_coarse =
     [\<lparr>CoarseSymbol = ''AAA'', HasFundamentalData = True, Price = 12\<rparr>,
      \<lparr>CoarseSymbol = ''BBB'', HasFundamentalData = True, Price = 3\<rparr>,
      \<lparr>CoarseSymbol = ''ETF'', HasFundamentalData = False, Price = 40\<rparr>]"

definition example_fine :: "FineFundamental list" where
  "example_fine =
     [\<lparr>FineSymbol = ''AAA'', MarketCap = 500000000, PERatio = 4\<rparr>,
      \<lparr>FineSymbol = ''BBB'', MarketCap = 900000000, PERatio = 12\<rparr>,
      \<lparr>FineSymbol = ''BIG'', MarketCap = 5000000000, PERatio = 2\<rparr>]"

text \<open>
  52 small caps of which the two with the lowest P/E ratios differ in the last bit of the
  double.
\<close>

definition example_fine_close :: "FineFundamental list" where
  "example_fine_close =
     \<lparr>FineSymbol = ''LO'', MarketCap = 400000000, PERatio = 1\<rparr>
     # \<lparr>FineSymbol = ''NEXT'', MarketCap = 400000000, PERatio = 1 + 1 / 2 ^ 52\<rparr>
     # map (\<lambda>k. \<lparr>FineSymbol = replicate (Suc k) CHR ''Z'', MarketCap = 400000000,
                   PERatio = 2 + of_nat k\<rparr>) [0..<50]"

text \<open>
  A second host, which removes an insight as expired from its close time on while it still
  lists it as active at that time. With it an insight can be among the last active insights
  and among the expired ones of one call, the case for which line 107 looks into
  \<^verbatim>\<open>errorSymbols\<close>.
\<close>

definition EagerExpiryCollection :: "Insight list InsightCollection" where
  "EagerExpiryCollection =
     ListInsightCollection
       \<lparr>RemoveExpiredInsights :=
          (\<lambda>c utcTime. (filter (\<lambda>i. CloseTimeUtc i \<le> utcTime) c,
                        filter (\<lambda>i. utcTime < CloseTimeUtc i) c))\<rparr>"

text \<open>An insight that closes at time 10, and one that closed at time 5.\<close>

definition due_insight :: Insight where
  "due_insight =
     \<lparr>InsightId = 7, Symbol = ''AAA'', Direction = Up, GeneratedTimeUtc = 0, CloseTimeUtc = 10\<rparr>"

definition past_insight :: Insight where
  "past_insight =
     \<lparr>InsightId = 8, Symbol = ''BBB'', Direction = Up, GeneratedTimeUtc = 0, CloseTimeUtc = 5\<rparr>"

definition example_due_model :: "Insight list CustomEqualWeightingPortfolioConstructionModel" where
  "example_due_model = example_model\<lparr>insightCollection := [due_insight]\<rparr>"

definition example_past_model :: "Insight list CustomEqualWeightingPortfolioConstructionModel" where
  "example_past_model = example_model\<lparr>insightCollection := [past_insight]\<rparr>"

section \<open>Properties of the universe selection\<close>

subsection \<open>The percentile returns exactly on data that are not empty\<close>

lemma py_index_in_range:
  "0 \<le> i \<Longrightarrow> i < int (length xs) \<Longrightarrow> py_index xs i = Inr (xs ! nat i)"
  by (simp add: py_index_def)

lemma py_index_empty: "py_index [] i = Inl IndexError"
  by (simp add: py_index_def)

lemma quantile_of_1: "float64_nearest (1 / 100) = 5764607523034235 / 576460752303423488"
  by code_simp

lemma np_percentile_empty: "np_percentile [] 1 = Inl IndexError"
  by (simp add: np_percentile_def quantile_of_1 py_index_empty Let_def)

lemma np_percentile_nonempty:
  assumes "a \<noteq> []"
  shows "\<exists>p. np_percentile a 1 = Inr p"
proof -
  define n where "n = int (length a)"
  define v where
    "v = float64_nearest (float64_nearest (of_int (n - 1)) * float64_nearest (1 / 100))"
  define below where "below = \<lfloor>v\<rfloor>"
  define lo where
    "lo = (if v < 0 then 0 else if v \<ge> of_int (n - 1) then - 1 else below)"
  define hi where
    "hi = (if v < 0 then 0 else if v \<ge> of_int (n - 1) then - 1 else below + 1)"
  from assms have n1: "1 \<le> n" by (cases a) (simp_all add: n_def)
  have len: "int (length (sort a)) = n" by (simp add: n_def)
  have last_entry: "\<exists>x. py_index (sort a) (- 1) = Inr x"
    using n1 len by (simp add: py_index_def)
  have ranges: "(- n \<le> lo \<and> lo < n) \<and> (- n \<le> hi \<and> hi < n)"
  proof (cases "v < 0 \<or> v \<ge> of_int (n - 1)")
    case True
    then show ?thesis using n1 by (auto simp: lo_def hi_def)
  next
    case False
    then have v: "0 \<le> v" "v < of_int (n - 1)" by simp_all
    have "0 \<le> below" using v(1) by (simp add: below_def)
    moreover have "below < n - 1" using v(2) by (simp add: below_def floor_less_iff)
    moreover have "lo = below" "hi = below + 1" using False by (simp_all add: lo_def hi_def)
    ultimately show ?thesis by linarith
  qed
  have previous: "\<exists>x. py_index (sort a) lo = Inr x"
    using ranges len by (auto simp: py_index_def)
  have next_entry: "\<exists>x. py_index (sort a) hi = Inr x"
    using ranges len by (auto simp: py_index_def)
  have valid: "(float64_nearest (1 / 100) < 0 \<or> 1 < float64_nearest (1 / 100)) = False"
    by (simp add: quantile_of_1)
  from last_entry obtain x where x: "py_index (sort a) (- 1) = Inr x" ..
  from previous [unfolded lo_def below_def v_def n_def] obtain y where
    y: "py_index (sort a)
          (if float64_nearest (float64_nearest (of_int (int (length a) - 1))
                                 * float64_nearest (1 / 100)) < 0 then 0
           else if float64_nearest (float64_nearest (of_int (int (length a) - 1))
                                 * float64_nearest (1 / 100)) \<ge> of_int (int (length a) - 1)
           then - 1
           else \<lfloor>float64_nearest (float64_nearest (of_int (int (length a) - 1))
                                 * float64_nearest (1 / 100))\<rfloor>) = Inr y" ..
  from next_entry [unfolded hi_def below_def v_def n_def] obtain z where
    z: "py_index (sort a)
          (if float64_nearest (float64_nearest (of_int (int (length a) - 1))
                                 * float64_nearest (1 / 100)) < 0 then 0
           else if float64_nearest (float64_nearest (of_int (int (length a) - 1))
                                 * float64_nearest (1 / 100)) \<ge> of_int (int (length a) - 1)
           then - 1
           else \<lfloor>float64_nearest (float64_nearest (of_int (int (length a) - 1))
                                 * float64_nearest (1 / 100))\<rfloor> + 1) = Inr z" ..
  show ?thesis
    by (simp only: np_percentile_def Let_def valid if_False x y z sum.case) blast
qed

subsection \<open>The percentile of the examples\<close>

text \<open>
  Where the virtual index \<open>v\<close> lies between \<open>k\<close> and \<open>k + 1\<close> and below \<open>n - 1\<close>, the percentile
  of sorted data is \<^verbatim>\<open>_lerp\<close> of the entries \<open>k\<close> and \<open>k + 1\<close>.
\<close>

lemma np_percentile_1_inside:
  assumes v: "float64_nearest (float64_nearest (of_int (int (length a) - 1)) * float64_nearest (1 / 100)) = v"
    and k: "of_nat k \<le> v" "v < of_nat (Suc k)"
    and inside: "v < of_int (int (length a) - 1)"
    and sorted: "sorted a"
  shows "np_percentile a 1 =
           Inr (np_lerp (a ! k) (a ! Suc k) (float64_nearest (v - float64_nearest (of_nat k))))"
proof -
  have valid: "(float64_nearest (1 / 100) < 0 \<or> 1 < float64_nearest (1 / 100)) = False"
    by (simp add: quantile_of_1)
  have arr: "sort a = a" using sorted by (simp add: sorted_sort_id)
  have below: "\<lfloor>v\<rfloor> = int k"
    using k by (intro floor_unique) simp_all
  have "of_int (int k) < (of_int (int (length a) - 1) :: rat)"
    using k(1) inside by simp
  then have "int k < int (length a) - 1"
    by (simp only: of_int_less_iff)
  then have len: "Suc k < length a" by simp
  have c1: "(v < 0) = False" using k(1) by (simp add: not_less order_trans [OF of_nat_0_le_iff])
  have c2: "(v \<ge> of_int (int (length a) - 1)) = False" using inside by simp
  have r0: "py_index a (- 1) = Inr (a ! nat (int (length a) + - 1))"
    using len by (simp add: py_index_def)
  have r1: "py_index a (int k) = Inr (a ! k)" using len by (simp add: py_index_def)
  have r2: "py_index a (int k + 1) = Inr (a ! Suc k)"
    using len by (simp add: py_index_def nat_add_distrib)
  show ?thesis
    by (simp only: np_percentile_def Let_def valid if_False arr v c1 c2 below r0 r1 r2 sum.case
        of_int_of_nat_eq)
qed

text \<open>The roundings of the two examples, each computed on its own.\<close>

lemma float64_nearest_0: "float64_nearest 0 = 0"
  by (simp add: float64_nearest_def)

lemma float64_nearest_1: "float64_nearest 1 = 1"
  by code_simp

lemma float64_nearest_51: "float64_nearest 51 = 51"
  by code_simp

lemma virtual_index_2:
  "float64_nearest (1 * (5764607523034235 / 576460752303423488))
     = 5764607523034235 / 576460752303423488"
  by code_simp

lemma virtual_index_52:
  "float64_nearest (51 * (5764607523034235 / 576460752303423488))
     = 2296835809958953 / 4503599627370496"
  by code_simp

lemma gamma_2:
  "float64_nearest (5764607523034235 / 576460752303423488 - 0)
     = 5764607523034235 / 576460752303423488"
  by code_simp

lemma gamma_52:
  "float64_nearest (2296835809958953 / 4503599627370496 - 0) = 2296835809958953 / 4503599627370496"
  by code_simp

lemma lerp_2:
  "np_lerp 4 12 (5764607523034235 / 576460752303423488) = 2296835809958953 / 562949953421312"
  by code_simp

lemma lerp_52: "np_lerp 1 (1 + 1 / 2 ^ 52) (2296835809958953 / 4503599627370496) = 1 + 1 / 2 ^ 52"
  by code_simp

lemma example_percentile: "np_percentile [4, 12] 1 = Inr (2296835809958953 / 562949953421312)"
proof -
  have v: "float64_nearest (float64_nearest (of_int (int (length [4, 12 :: rat]) - 1))
                              * float64_nearest (1 / 100))
             = 5764607523034235 / 576460752303423488"
    using virtual_index_2 by (simp add: quantile_of_1 float64_nearest_1)
  have "np_percentile [4, 12] 1 =
      Inr (np_lerp ([4, 12] ! 0) ([4, 12] ! Suc 0)
             (float64_nearest (5764607523034235 / 576460752303423488 - float64_nearest (of_nat 0))))"
    by (rule np_percentile_1_inside [OF v]) simp_all
  then show ?thesis
    by (simp only: of_nat_0 float64_nearest_0 gamma_2 nth_Cons_0 nth_Cons_Suc lerp_2)
qed

lemma example_close_percentile:
  "np_percentile (1 # (1 + 1 / 2 ^ 52) # map (\<lambda>k. 2 + of_nat k) [0..<50]) 1 = Inr (1 + 1 / 2 ^ 52)"
proof -
  let ?a = "1 # (1 + 1 / 2 ^ 52) # map (\<lambda>k. 2 + of_nat k) [0..<50] :: rat list"
  have v: "float64_nearest (float64_nearest (of_int (int (length ?a) - 1)) * float64_nearest (1 / 100))
             = 2296835809958953 / 4503599627370496"
    using virtual_index_52 by (simp add: quantile_of_1 float64_nearest_51)
  have sorted: "sorted ?a"
    by (auto simp add: sorted_map intro!: sorted_wrt_mono_rel [OF _ sorted_upt])
  have "np_percentile ?a 1 =
      Inr (np_lerp (?a ! 0) (?a ! Suc 0)
             (float64_nearest (2296835809958953 / 4503599627370496 - float64_nearest (of_nat 0))))"
    by (rule np_percentile_1_inside [OF v _ _ _ sorted]) simp_all
  then show ?thesis
    by (simp only: of_nat_0 float64_nearest_0 gamma_52 nth_Cons_0 nth_Cons_Suc lerp_52)
qed

lemma SelectFine_result:
  "fst (SelectFine algorithm fine) =
     (case np_percentile (peRatios fine) 1 of
        Inl e \<Rightarrow> Inl e
      | Inr p \<Rightarrow> Inr (map FineSymbol (lowestPERatio p fine)))"
  by (simp add: SelectFine_def Let_def split: sum.splits)

lemma example_fine_filter:
  "filterFine example_fine =
     [\<lparr>FineSymbol = ''AAA'', MarketCap = 500000000, PERatio = 4\<rparr>,
      \<lparr>FineSymbol = ''BBB'', MarketCap = 900000000, PERatio = 12\<rparr>]"
  by (simp add: filterFine_def example_fine_def)

lemma example_fine_ratios: "peRatios example_fine = [4, 12]"
  by (simp add: peRatios_def example_fine_filter)

lemma example_fine_selection:
  "fst (SelectFine example_selection_algorithm example_fine) = Inr [''AAA'']"
proof -
  have "map FineSymbol (lowestPERatio (2296835809958953 / 562949953421312) example_fine) = [''AAA'']"
    by (simp add: lowestPERatio_def example_fine_filter)
  then show ?thesis
    by (simp only: SelectFine_result example_fine_ratios example_percentile sum.case)
qed

lemma example_fine_close_filter: "filterFine example_fine_close = example_fine_close"
  by (simp add: filterFine_def example_fine_close_def filter_map o_def)

lemma example_fine_close_ratios:
  "peRatios example_fine_close = 1 # (1 + 1 / 2 ^ 52) # map (\<lambda>k. 2 + of_nat k) [0..<50]"
  unfolding peRatios_def example_fine_close_filter
  by (simp add: example_fine_close_def o_def)

lemma example_fine_close_percentile:
  "np_percentile (peRatios example_fine_close) 1 = Inr (1 + 1 / 2 ^ 52)"
  by (simp only: example_fine_close_ratios example_close_percentile)

lemma example_fine_close_lowest:
  "map FineSymbol (lowestPERatio (1 + 1 / 2 ^ 52) example_fine_close) = [''LO'', ''NEXT'']"
proof -
  have "filter (\<lambda>k. 2 + rat_of_nat k \<le> 1 + 1 / 2 ^ 52) [0..<50] = []"
    by (rule filter_False) (simp add: not_le add_strict_increasing2)
  then show ?thesis
    unfolding lowestPERatio_def example_fine_close_filter
    by (simp add: example_fine_close_def filter_map o_def)
qed

lemma example_fine_close_selection:
  "fst (SelectFine example_selection_algorithm example_fine_close) = Inr [''LO'', ''NEXT'']"
  by (simp only: SelectFine_result example_fine_close_percentile sum.case example_fine_close_lowest)

subsection \<open>SelectCoarse\<close>

text \<open>
  Claim C4, as the code has it: \<^verbatim>\<open>SelectCoarse\<close> returns a list of symbols, the symbols of the
  securities with fundamental data and a price above 5, when the year of \<^verbatim>\<open>algorithm.Time\<close>
  differs from \<^verbatim>\<open>periodCheck\<close>, and it then stores that year; in every other invocation it
  returns \<^verbatim>\<open>Universe.Unchanged\<close> and changes nothing.
\<close>

theorem SelectCoarse_once_a_year:
  "(TimeYear algorithm \<noteq> periodCheck self \<longrightarrow>
      fst (SelectCoarse self algorithm coarse) = Symbols (map CoarseSymbol (filterCoarse coarse))
      \<and> periodCheck (fst (snd (SelectCoarse self algorithm coarse))) = TimeYear algorithm)
   \<and> (TimeYear algorithm = periodCheck self \<longrightarrow>
      SelectCoarse self algorithm coarse = (Unchanged, self, algorithm))"
  by (simp add: SelectCoarse_def Let_def)

text \<open>Both cases at the example: the first invocation of 2015 and a later one of that year.\<close>

theorem SelectCoarse_once_a_year_witness:
  "TimeYear example_selection_algorithm \<noteq> periodCheck UniverseInit
   \<and> fst (SelectCoarse UniverseInit example_selection_algorithm example_coarse) = Symbols [''AAA'']
   \<and> TimeYear example_selection_algorithm = periodCheck \<lparr>periodCheck = 2015\<rparr>
   \<and> SelectCoarse \<lparr>periodCheck = 2015\<rparr> example_selection_algorithm example_coarse
       = (Unchanged, \<lparr>periodCheck = 2015\<rparr>, example_selection_algorithm)"
  using SelectCoarse_once_a_year [of example_selection_algorithm UniverseInit example_coarse]
    SelectCoarse_once_a_year [of example_selection_algorithm "\<lparr>periodCheck = 2015\<rparr>" example_coarse]
  by (simp add: UniverseInit_def example_selection_algorithm_def example_coarse_def filterCoarse_def)

text \<open>
  The second invocation of a year does not return a list of symbols: after the first call
  of 2015 has returned one, the next call of 2015 on the same data returns the marker.
\<close>

theorem SelectCoarse_once_a_year_counterexample:
  "fst (SelectCoarse UniverseInit example_selection_algorithm example_coarse) = Symbols [''AAA'']
   \<and> fst (SelectCoarse
            (fst (snd (SelectCoarse UniverseInit example_selection_algorithm example_coarse)))
            example_selection_algorithm example_coarse) = Unchanged"
  by (simp add: SelectCoarse_def UniverseInit_def example_selection_algorithm_def
      example_coarse_def filterCoarse_def Let_def)

text \<open>
  Claim C7: when the coarse stage selects, a symbol is returned if and only if it is the symbol
  of a security of the snapshot that has fundamental data and a last price above 5; where the
  securities of the snapshot have different symbols, a security passes if and only if it has
  fundamental data and a last price above 5. (The code has no criterion on volume.)
\<close>

theorem SelectCoarse_price_filter:
  assumes "TimeYear algorithm \<noteq> periodCheck self"
  shows "\<exists>coarseSelection.
           fst (SelectCoarse self algorithm coarse) = Symbols coarseSelection
           \<and> (\<forall>s. s \<in> set coarseSelection \<longleftrightarrow>
                  (\<exists>x \<in> set coarse. CoarseSymbol x = s \<and> HasFundamentalData x \<and> Price x > 5))
           \<and> (inj_on CoarseSymbol (set coarse) \<longrightarrow>
                (\<forall>x \<in> set coarse. CoarseSymbol x \<in> set coarseSelection
                    \<longleftrightarrow> HasFundamentalData x \<and> Price x > 5))"
proof -
  let ?sel = "map CoarseSymbol (filterCoarse coarse)"
  have returned: "fst (SelectCoarse self algorithm coarse) = Symbols ?sel"
    using assms by (simp add: SelectCoarse_def Let_def)
  have by_symbol: "\<forall>s. s \<in> set ?sel \<longleftrightarrow>
             (\<exists>x \<in> set coarse. CoarseSymbol x = s \<and> HasFundamentalData x \<and> Price x > 5)"
    by (auto simp: filterCoarse_def)
  have by_security: "inj_on CoarseSymbol (set coarse) \<longrightarrow>
             (\<forall>x \<in> set coarse. CoarseSymbol x \<in> set ?sel \<longleftrightarrow> HasFundamentalData x \<and> Price x > 5)"
    by (auto simp: filterCoarse_def dest: inj_onD)
  from returned by_symbol by_security show ?thesis by blast
qed

theorem SelectCoarse_price_filter_witness:
  "TimeYear example_selection_algorithm \<noteq> periodCheck UniverseInit
   \<and> inj_on CoarseSymbol (set example_coarse)
   \<and> fst (SelectCoarse UniverseInit example_selection_algorithm example_coarse) = Symbols [''AAA'']"
proof -
  have year: "TimeYear example_selection_algorithm \<noteq> periodCheck UniverseInit"
    by (simp add: example_selection_algorithm_def UniverseInit_def)
  have symbols: "inj_on CoarseSymbol (set example_coarse)"
    by (simp add: example_coarse_def)
  from SelectCoarse_price_filter [OF year, of example_coarse] year symbols show ?thesis
    by (simp add: SelectCoarse_def UniverseInit_def example_selection_algorithm_def
        example_coarse_def filterCoarse_def Let_def)
qed

subsection \<open>SelectFine\<close>

text \<open>
  Claim C5: the symbols \<^verbatim>\<open>SelectFine\<close> returns are never more than the securities of the
  small-cap filtered set, the set the percentile was computed from.
\<close>

theorem SelectFine_at_most_small_caps:
  "fst (SelectFine algorithm fine) = Inr fineSelection
    \<Longrightarrow> length fineSelection \<le> length (filterFine fine)"
  by (auto simp: SelectFine_result lowestPERatio_def split: sum.splits)

theorem SelectFine_at_most_small_caps_witness:
  "fst (SelectFine example_selection_algorithm example_fine) = Inr [''AAA'']
   \<and> length [''AAA''] \<le> length (filterFine example_fine)"
  using SelectFine_at_most_small_caps [OF example_fine_selection] example_fine_selection
  by simp

text \<open>
  Claim C6: every symbol \<^verbatim>\<open>SelectFine\<close> returns is the symbol of a security of the snapshot
  whose market cap lies strictly between 300 million and 2 billion, whose P/E ratio is
  strictly positive, and whose P/E ratio is at most the 1st percentile of the P/E ratios of
  the small-cap filtered set, the percentile being the double \<^verbatim>\<open>np.percentile\<close> computes.
\<close>

theorem SelectFine_small_cap_low_pe:
  assumes "fst (SelectFine algorithm fine) = Inr fineSelection" and "s \<in> set fineSelection"
  shows "\<exists>x \<in> set fine. \<exists>p.
           FineSymbol x = s \<and> 300000000 < MarketCap x \<and> MarketCap x < 2000000000
           \<and> 0 < PERatio x \<and> np_percentile (peRatios fine) 1 = Inr p \<and> PERatio x \<le> p"
  using assms
  by (auto simp: SelectFine_result lowestPERatio_def filterFine_def split: sum.splits)

text \<open>
  At the first example the percentile lies between the two ratios, and one symbol is returned.
  At the second the two lowest ratios are 1 and the next double; the percentile numpy computes
  is that next double, so both symbols are returned.
\<close>

theorem SelectFine_small_cap_low_pe_witness:
  "fst (SelectFine example_selection_algorithm example_fine) = Inr [''AAA'']
   \<and> ''AAA'' \<in> set [''AAA'']
   \<and> (\<exists>x \<in> set example_fine. \<exists>p.
         FineSymbol x = ''AAA'' \<and> 300000000 < MarketCap x \<and> MarketCap x < 2000000000
         \<and> 0 < PERatio x \<and> np_percentile (peRatios example_fine) 1 = Inr p \<and> PERatio x \<le> p)
   \<and> fst (SelectFine example_selection_algorithm example_fine_close) = Inr [''LO'', ''NEXT'']
   \<and> ''NEXT'' \<in> set [''LO'', ''NEXT'']
   \<and> np_percentile (peRatios example_fine_close) 1 = Inr (1 + 1 / 2 ^ 52)
   \<and> (\<exists>x \<in> set example_fine_close. \<exists>p.
         FineSymbol x = ''NEXT'' \<and> 300000000 < MarketCap x \<and> MarketCap x < 2000000000
         \<and> 0 < PERatio x \<and> np_percentile (peRatios example_fine_close) 1 = Inr p \<and> PERatio x \<le> p)"
proof -
  have "''AAA'' \<in> set [''AAA'']" and "''NEXT'' \<in> set [''LO'', ''NEXT'']"
    by simp_all
  with SelectFine_small_cap_low_pe [OF example_fine_selection, of "''AAA''"]
    SelectFine_small_cap_low_pe [OF example_fine_close_selection, of "''NEXT''"]
    example_fine_selection example_fine_close_selection example_fine_close_percentile
  show ?thesis by blast
qed

text \<open>
  Claim C9: \<^verbatim>\<open>SelectFine\<close> returns normally when the small-cap filtered set is not empty, and
  when that set is empty the percentile of the empty list fails and \<^verbatim>\<open>SelectFine\<close> raises.
\<close>

theorem SelectFine_total_iff_small_caps:
  "(filterFine fine \<noteq> [] \<longrightarrow> (\<exists>fineSelection. fst (SelectFine algorithm fine) = Inr fineSelection))
   \<and> (filterFine fine = [] \<longrightarrow> fst (SelectFine algorithm fine) = Inl IndexError)"
proof (intro conjI impI)
  assume "filterFine fine \<noteq> []"
  then have "peRatios fine \<noteq> []" by (simp add: peRatios_def)
  from np_percentile_nonempty [OF this]
  show "\<exists>fineSelection. fst (SelectFine algorithm fine) = Inr fineSelection"
    by (auto simp: SelectFine_result)
next
  assume "filterFine fine = []"
  then show "fst (SelectFine algorithm fine) = Inl IndexError"
    by (simp add: SelectFine_result peRatios_def np_percentile_empty)
qed

theorem SelectFine_total_iff_small_caps_witness:
  "filterFine example_fine \<noteq> []
   \<and> fst (SelectFine example_selection_algorithm example_fine) = Inr [''AAA'']
   \<and> filterFine [\<lparr>FineSymbol = ''BIG'', MarketCap = 5000000000, PERatio = 2\<rparr>] = []
   \<and> fst (SelectFine example_selection_algorithm
            [\<lparr>FineSymbol = ''BIG'', MarketCap = 5000000000, PERatio = 2\<rparr>]) = Inl IndexError"
  using SelectFine_total_iff_small_caps [of example_fine example_selection_algorithm]
    SelectFine_total_iff_small_caps
      [of "[\<lparr>FineSymbol = ''BIG'', MarketCap = 5000000000, PERatio = 2\<rparr>]"
          example_selection_algorithm]
    example_fine_selection
  by (simp add: example_fine_filter) (simp add: filterFine_def)

section \<open>Properties of the binary64 rounding\<close>

text \<open>
  Rounding to an integer moves a number by at most one half, and leaves an integer alone.
\<close>

lemma round_half_even_error: "\<bar>of_int (round_half_even y) - y\<bar> \<le> 1 / 2"
proof -
  have "of_int \<lfloor>y\<rfloor> \<le> y" "y < of_int \<lfloor>y\<rfloor> + 1" by linarith+
  then show ?thesis
    by (auto simp: round_half_even_def Let_def)
qed

lemma round_half_even_of_int: "round_half_even (of_int k) = k"
  by (simp add: round_half_even_def)

lemma round_half_even_near:
  assumes "\<bar>y - of_int m\<bar> < 1 / 2"
  shows "round_half_even y = m"
proof (cases "of_int m \<le> y")
  case True
  with assms have "\<lfloor>y\<rfloor> = m" by (intro floor_unique) (simp_all add: abs_less_iff)
  with assms True show ?thesis by (simp add: round_half_even_def Let_def abs_less_iff)
next
  case False
  with assms have "\<lfloor>y\<rfloor> = m - 1" by (intro floor_unique) (simp_all add: abs_less_iff)
  with assms False show ?thesis by (simp add: round_half_even_def Let_def abs_less_iff)
qed

text \<open>
  The exponent chosen for a positive \<open>x\<close> is the one with \<open>2 powi e \<le> x < 2 powi (e + 1)\<close>.
\<close>

lemma bitlen_pos: "0 < p \<Longrightarrow> 1 \<le> bitlen p"
  using bitlen_bounds[of p] bitlen_nonneg[of p]
  by (smt (verit) bitlen_eq_zero_iff)

lemma ilog2_lower:
  assumes "0 < x"
  shows "2 powi (ilog2 x) \<le> x"
proof -
  obtain p q where pq: "quotient_of x = (p, q)" by (cases "quotient_of x")
  have q0: "0 < q" using pq by (rule quotient_of_denom_pos)
  have x: "x = of_int p / of_int q" using pq by (rule quotient_of_div)
  have p0: "0 < p" using assms q0 x by (simp add: zero_less_divide_iff)
  define d where "d = bitlen p - bitlen q"
  show ?thesis
  proof (cases "2 powi d \<le> x")
    case True
    then show ?thesis by (simp add: ilog2_def pq d_def)
  next
    case False
    have bp: "1 \<le> bitlen p" using p0 by (rule bitlen_pos)
    have bq: "1 \<le> bitlen q" using q0 by (rule bitlen_pos)
    have lp: "(2::rat) powi (bitlen p - 1) \<le> of_int p"
    proof -
      have "(2::int) ^ nat (bitlen p - 1) \<le> p" using bitlen_bounds[OF p0] by simp
      then have "(of_int (2 ^ nat (bitlen p - 1)) :: rat) \<le> of_int p" by (simp only: of_int_le_iff)
      then show ?thesis using bp by (simp add: power_int_def)
    qed
    have uq: "of_int q \<le> (2::rat) powi (bitlen q)"
    proof -
      have "q < (2::int) ^ nat (bitlen q)" using bitlen_bounds[OF q0] by simp
      then have "(of_int q :: rat) < of_int (2 ^ nat (bitlen q))" by (simp only: of_int_less_iff)
      then show ?thesis using bq by (simp add: power_int_def)
    qed
    have "(2::rat) powi (d - 1) = 2 powi (bitlen p - 1) / 2 powi (bitlen q)"
      by (simp add: d_def power_int_diff)
    also have "\<dots> \<le> of_int p / of_int q"
      using lp uq q0 p0 by (intro frac_le) simp_all
    finally have "2 powi (d - 1) \<le> x" using x by simp
    with False show ?thesis by (simp add: ilog2_def pq d_def)
  qed
qed

lemma ilog2_upper:
  assumes "0 < x"
  shows "x < 2 powi (ilog2 x + 1)"
proof -
  obtain p q where pq: "quotient_of x = (p, q)" by (cases "quotient_of x")
  have q0: "0 < q" using pq by (rule quotient_of_denom_pos)
  have x: "x = of_int p / of_int q" using pq by (rule quotient_of_div)
  have p0: "0 < p" using assms q0 x by (simp add: zero_less_divide_iff)
  define d where "d = bitlen p - bitlen q"
  show ?thesis
  proof (cases "2 powi d \<le> x")
    case True
    have bp: "1 \<le> bitlen p" using p0 by (rule bitlen_pos)
    have bq: "1 \<le> bitlen q" using q0 by (rule bitlen_pos)
    have up: "of_int p < (2::rat) powi (bitlen p)"
    proof -
      have "p < (2::int) ^ nat (bitlen p)" using bitlen_bounds[OF p0] by simp
      then have "(of_int p :: rat) < of_int (2 ^ nat (bitlen p))" by (simp only: of_int_less_iff)
      then show ?thesis using bp by (simp add: power_int_def)
    qed
    have lq: "(2::rat) powi (bitlen q - 1) \<le> of_int q"
    proof -
      have "(2::int) ^ nat (bitlen q - 1) \<le> q" using bitlen_bounds[OF q0] by simp
      then have "(of_int (2 ^ nat (bitlen q - 1)) :: rat) \<le> of_int q" by (simp only: of_int_le_iff)
      then show ?thesis using bq by (simp add: power_int_def)
    qed
    have pos: "(0::rat) < 2 powi (bitlen q - 1)" by (simp add: zero_less_power_int)
    have "of_int p / of_int q < (2::rat) powi (bitlen p) / 2 powi (bitlen q - 1)"
      using up lq pos p0 q0 by (intro frac_less) simp_all
    also have "\<dots> = 2 powi (bitlen p - (bitlen q - 1))"
      by (rule power_int_diff [symmetric]) simp
    also have "bitlen p - (bitlen q - 1) = d + 1"
      by (simp add: d_def)
    finally have "x < 2 powi (d + 1)" using x by simp
    with True show ?thesis by (simp add: ilog2_def pq d_def)
  next
    case False
    then show ?thesis by (simp add: ilog2_def pq d_def)
  qed
qed

lemma ilog2_unique:
  assumes "2 powi e \<le> x" and "x < 2 powi (e + 1)"
  shows "ilog2 x = e"
proof -
  have "(0::rat) < 2 powi e" by (rule zero_less_power_int) simp
  with assms(1) have x0: "0 < x" by linarith
  have lo: "2 powi (ilog2 x) \<le> x" using x0 by (rule ilog2_lower)
  have up: "x < 2 powi (ilog2 x + 1)" using x0 by (rule ilog2_upper)
  have "\<not> ilog2 x < e"
  proof
    assume "ilog2 x < e"
    then have "(2::rat) powi (ilog2 x + 1) \<le> 2 powi e" by (intro power_int_increasing) simp_all
    with assms(1) up show False by simp
  qed
  moreover have "\<not> e < ilog2 x"
  proof
    assume "e < ilog2 x"
    then have "(2::rat) powi (e + 1) \<le> 2 powi (ilog2 x)" by (intro power_int_increasing) simp_all
    with assms(2) lo show False by simp
  qed
  ultimately show ?thesis by simp
qed

text \<open>
  The relative error of the rounding is at most \<open>1 / 2 ^ 53\<close>; it keeps the sign; and an integer
  below \<open>2 ^ 53\<close> is a double, which the conversion of \<^verbatim>\<open>count\<close> returns unchanged.
\<close>

lemma binary64_error:
  "\<bar>binary64 x - x\<bar> \<le> \<bar>x\<bar> / 2 ^ 53"
proof (cases "x = 0")
  case True
  then show ?thesis by (simp add: binary64_def)
next
  case False
  define a where "a = \<bar>x\<bar>"
  define e where "e = ilog2 a"
  define m where "m = round_half_even (a * 2 powi (52 - e))"
  have a0: "0 < a" using False by (simp add: a_def)
  have lo: "2 powi e \<le> a" unfolding e_def using a0 by (rule ilog2_lower)
  have b: "binary64 x = sgn x * (of_int m * 2 powi (e - 52))"
    using False by (simp add: binary64_def Let_def a_def e_def m_def mult.assoc)
  have xs: "x = sgn x * a" unfolding a_def by (simp add: sgn_mult_abs)
  have p0: "(0::rat) < 2 powi (e - 52)" by (simp add: zero_less_power_int)
  have inv: "(2::rat) powi (52 - e) * 2 powi (e - 52) = 1"
    by (simp flip: power_int_add)
  have "\<bar>of_int m - a * 2 powi (52 - e)\<bar> \<le> 1 / 2"
    unfolding m_def by (rule round_half_even_error)
  then have "\<bar>of_int m - a * 2 powi (52 - e)\<bar> * 2 powi (e - 52) \<le> 1 / 2 * 2 powi (e - 52)"
    using p0 by (intro mult_right_mono) simp_all
  moreover have "\<bar>of_int m - a * 2 powi (52 - e)\<bar> * 2 powi (e - 52)
      = \<bar>of_int m * 2 powi (e - 52) - a\<bar>"
  proof -
    have "\<bar>of_int m - a * 2 powi (52 - e)\<bar> * 2 powi (e - 52)
       = \<bar>(of_int m - a * 2 powi (52 - e)) * 2 powi (e - 52)\<bar>"
      using p0 by (simp add: abs_mult)
    also have "(of_int m - a * 2 powi (52 - e)) * 2 powi (e - 52)
       = of_int m * 2 powi (e - 52) - a * (2 powi (52 - e) * 2 powi (e - 52))"
      by (simp add: algebra_simps)
    finally show ?thesis by (simp add: inv)
  qed
  moreover have "(1 / 2 :: rat) * 2 powi (e - 52) = 2 powi e / 2 ^ 53"
  proof -
    have "(2::rat) powi (e - 52) = 2 powi e / 2 powi 52" by (simp add: power_int_diff)
    then show ?thesis by simp
  qed
  ultimately have "\<bar>of_int m * 2 powi (e - 52) - a\<bar> \<le> 2 powi e / 2 ^ 53" by simp
  also have "\<dots> \<le> a / 2 ^ 53" using lo by (simp add: divide_right_mono)
  finally have main: "\<bar>of_int m * 2 powi (e - 52) - a\<bar> \<le> a / 2 ^ 53" .
  have "\<bar>binary64 x - x\<bar> = \<bar>sgn x * (of_int m * 2 powi (e - 52) - a)\<bar>"
    using b xs by (metis right_diff_distrib)
  also have "\<dots> = \<bar>of_int m * 2 powi (e - 52) - a\<bar>"
    using False by (simp add: abs_mult abs_sgn_eq)
  finally show ?thesis using main by (simp add: a_def)
qed

lemma binary64_pos:
  assumes "0 < x"
  shows "0 < binary64 x"
proof -
  have "\<bar>binary64 x - x\<bar> \<le> \<bar>x\<bar> / 2 ^ 53" by (rule binary64_error)
  moreover have "x / 2 ^ 53 < x" using assms by (simp add: field_simps)
  ultimately show ?thesis using assms by linarith
qed

lemma binary64_of_int:
  assumes "0 < n" and "n < 2 ^ 53"
  shows "binary64 (of_int n) = of_int n"
proof -
  define x :: rat where "x = of_int n"
  define e where "e = ilog2 x"
  define k where "k = nat (52 - e)"
  have x0: "0 < x" using assms by (simp add: x_def)
  have lo: "2 powi e \<le> x" unfolding e_def using x0 by (rule ilog2_lower)
  have xlt: "x < 2 powi 53" using assms(2) unfolding x_def
    by (metis of_int_less_iff of_int_numeral of_int_power power_int_numeral)
  have e52: "e \<le> 52"
  proof (rule ccontr)
    assume "\<not> e \<le> 52"
    then have "53 \<le> e" by simp
    then have "(2::rat) powi 53 \<le> 2 powi e" by (intro power_int_increasing) simp_all
    with lo xlt show False by simp
  qed
  have p: "(2::rat) powi (52 - e) = of_int (2 ^ k)" using e52 by (simp add: power_int_def k_def)
  have "x * 2 powi (52 - e) = of_int (n * 2 ^ k)" by (simp add: p x_def)
  then have m: "round_half_even (x * 2 powi (52 - e)) = n * 2 ^ k"
    by (simp only: round_half_even_of_int)
  have inv: "(2::rat) powi (52 - e) * 2 powi (e - 52) = 1"
    by (simp flip: power_int_add)
  have "binary64 x = of_int (n * 2 ^ k) * 2 powi (e - 52)"
    using x0 by (simp add: binary64_def Let_def m flip: e_def)
  also have "\<dots> = x * (2 powi (52 - e) * 2 powi (e - 52))"
    by (simp add: p x_def)
  finally show ?thesis by (simp add: inv x_def)
qed

text \<open>
  A double is checked by its significand: \<open>m\<close> is the significand of the rounding of \<open>x\<close>
  when \<open>x\<close> scaled into the 53 bits lies within one half of \<open>m\<close>.
\<close>

lemma binary64_certificate:
  assumes "2 ^ 52 \<le> x * 2 powi k" and "x * 2 powi k < 2 ^ 53"
    and "\<bar>x * 2 powi k - of_int m\<bar> < 1 / 2"
  shows "binary64 x = of_int m * 2 powi (- k)"
proof -
  have pk: "(0::rat) < 2 powi k" by (rule zero_less_power_int) simp
  have inv: "(2::rat) powi k * 2 powi (52 - k) = 2 ^ 52" "(2::rat) powi k * 2 powi (53 - k) = 2 ^ 53"
    by (simp_all flip: power_int_add)
  have x0: "0 < x"
  proof (rule ccontr)
    assume "\<not> 0 < x"
    then have "x * 2 powi k \<le> 0" using pk by (simp add: mult_le_0_iff)
    with assms(1) show False by simp
  qed
  have "2 powi (52 - k) * 2 powi k \<le> x * 2 powi k"
    using assms(1) inv(1) by (simp add: mult.commute)
  then have lo: "2 powi (52 - k) \<le> x" using pk by simp
  have "x * 2 powi k < 2 powi (52 - k + 1) * 2 powi k"
    using assms(2) inv(2) by (simp add: mult.commute add.commute)
  then have up: "x < 2 powi (52 - k + 1)" using pk by simp
  have e: "ilog2 x = 52 - k" using lo up by (rule ilog2_unique)
  have m: "round_half_even (x * 2 powi k) = m" using assms(3) by (rule round_half_even_near)
  show ?thesis
    using x0 by (simp add: binary64_def Let_def e m)
qed

lemma float_truediv_int_error:
  assumes "0 < n" and "n < 2 ^ 53"
  shows "\<bar>float_truediv_int 1 n - 1 / of_int n\<bar> \<le> 1 / (of_int n * 2 ^ 53)"
proof -
  have "float_truediv_int 1 n = binary64 (1 / of_int n)"
    using assms by (simp add: float_truediv_int_def binary64_of_int)
  moreover have "\<bar>binary64 (1 / of_int n) - 1 / of_int n\<bar> \<le> \<bar>1 / of_int n :: rat\<bar> / 2 ^ 53"
    by (rule binary64_error)
  ultimately show ?thesis using assms(1) by simp
qed

lemma float_truediv_int_pos:
  assumes "0 < n"
  shows "0 < float_truediv_int 1 n"
proof -
  have "0 < binary64 (of_int n)" using assms by (intro binary64_pos) simp
  then have "0 < 1 / binary64 (of_int n)" by simp
  then show ?thesis unfolding float_truediv_int_def by (rule binary64_pos)
qed

lemma equal_percent_pos: "0 < count \<Longrightarrow> 0 < equal_percent count"
  by (simp add: equal_percent_def float_truediv_int_pos)

lemma equal_percent_near:
  assumes "0 < count" and "count < 2 ^ 53"
  shows "\<bar>of_nat count * equal_percent count - 1\<bar> \<le> 1 / 2 ^ 53"
proof -
  define n where "n = int count"
  define q where "q = float_truediv_int 1 n"
  have n: "0 < n" "n < 2 ^ 53" using assms by (simp_all add: n_def)
  have e: "\<bar>q - 1 / of_int n\<bar> \<le> 1 / (of_int n * 2 ^ 53)"
    unfolding q_def using n by (rule float_truediv_int_error)
  have "\<bar>of_int n * q - 1\<bar> = \<bar>of_int n * (q - 1 / of_int n)\<bar>"
    using n(1) by (simp add: algebra_simps)
  also have "\<dots> = of_int n * \<bar>q - 1 / of_int n\<bar>"
    using n(1) by (simp add: abs_mult)
  also have "\<dots> \<le> of_int n * (1 / (of_int n * 2 ^ 53))"
    using e n(1) by (intro mult_left_mono) simp_all
  also have "\<dots> = 1 / 2 ^ 53" using n(1) by simp
  finally have main: "\<bar>of_int n * q - 1\<bar> \<le> 1 / 2 ^ 53" .
  have "equal_percent count = q" using assms(1) by (simp add: equal_percent_def q_def n_def)
  moreover have "(of_nat count :: rat) = of_int n" by (simp add: n_def)
  ultimately show ?thesis using main by (simp only:)
qed

section \<open>Properties of DetermineTargetPercent\<close>

text \<open>
  The dict built by the loop: every insight of the list is a key, and its value is the
  integer of its direction times the common percent. For a list of different insights the
  items are those of the list, in its order.
\<close>

lemma update_fresh: "k \<notin> fst ` set al \<Longrightarrow> AList.update k v al = al @ [(k, v)]"
  by (induction al) auto

lemma fold_update_distinct:
  "distinct xs \<Longrightarrow> set xs \<inter> fst ` set al = {}
    \<Longrightarrow> fold (\<lambda>k result. AList.update k (f k) result) xs al = al @ map (\<lambda>k. (k, f k)) xs"
proof (induction xs arbitrary: al)
  case Nil
  then show ?case by simp
next
  case (Cons x xs)
  from Cons.prems have fresh: "x \<notin> fst ` set al" by auto
  have step: "AList.update x (f x) al = al @ [(x, f x)]" using fresh by (rule update_fresh)
  have "set xs \<inter> fst ` set (al @ [(x, f x)]) = {}" using Cons.prems by auto
  with Cons.IH [of "al @ [(x, f x)]"] Cons.prems show ?case by (simp add: step)
qed

lemma map_of_fold_update:
  "map_of (fold (\<lambda>k result. AList.update k (f k) result) xs al) k
     = (if k \<in> set xs then Some (f k) else map_of al k)"
  by (induction xs arbitrary: al) (auto simp: update_conv')

lemma set_update_subset: "set (AList.update k v al) \<subseteq> insert (k, v) (set al)"
  by (induction al) auto

lemma fold_update_values:
  "(k, v) \<in> set (fold (\<lambda>k result. AList.update k (f k) result) xs al)
     \<Longrightarrow> (k, v) \<in> set al \<or> v = f k"
proof (induction xs arbitrary: al)
  case Nil
  then show ?case by simp
next
  case (Cons x xs)
  from Cons.IH [of "AList.update x (f x) al"] Cons.prems
  have "(k, v) \<in> set (AList.update x (f x) al) \<or> v = f k" by simp
  moreover have "set (AList.update x (f x) al) \<subseteq> insert (x, f x) (set al)"
    by (rule set_update_subset)
  ultimately show ?case by auto
qed

lemma DetermineTargetPercent_lookup:
  "map_of (DetermineTargetPercent xs) insight =
     (if insight \<in> set xs
      then Some (of_int (direction_value (Direction insight)) * equal_percent (count_not_flat xs))
      else None)"
  by (simp add: DetermineTargetPercent_def Let_def map_of_fold_update)

lemma DetermineTargetPercent_distinct:
  "distinct xs \<Longrightarrow> DetermineTargetPercent xs =
     map (\<lambda>insight. (insight, of_int (direction_value (Direction insight)) * equal_percent (count_not_flat xs))) xs"
  using fold_update_distinct [of xs "[]"]
  by (simp add: DetermineTargetPercent_def Let_def)

lemma count_not_flat_pos: "insight \<in> set xs \<Longrightarrow> Direction insight \<noteq> Flat \<Longrightarrow> 0 < count_not_flat xs"
  by (auto simp: count_not_flat_def filter_empty_conv)

lemma abs_direction_value: "\<bar>direction_value d\<bar> = (if d = Flat then 0 else 1)"
  by (cases d) simp_all

lemma sum_list_indicator:
  "sum_list (map (\<lambda>x. if P x then c else (0::rat)) xs) = of_nat (length (filter P xs)) * c"
  by (induction xs) (simp_all add: algebra_simps)

lemma sum_list_all_zero: "\<forall>v \<in> set vs. v = (0::rat) \<Longrightarrow> sum_list vs = 0"
  by (induction vs) simp_all

lemma total_abs_percent_distinct:
  assumes "distinct xs"
  shows "total_abs_percent (DetermineTargetPercent xs)
           = of_nat (count_not_flat xs) * equal_percent (count_not_flat xs)"
proof -
  define q where "q = equal_percent (count_not_flat xs)"
  have q0: "0 \<le> q"
    using equal_percent_pos [of "count_not_flat xs"] by (cases "count_not_flat xs = 0") (simp_all add: q_def equal_percent_def)
  have "abs_values (DetermineTargetPercent xs)
          = map (\<lambda>insight. if Direction insight \<noteq> Flat then q else 0) xs"
    using q0 by (simp add: DetermineTargetPercent_distinct [OF assms] abs_values_def q_def [symmetric]
        abs_mult abs_direction_value comp_def flip: of_int_abs)
  then show ?thesis
    by (simp add: total_abs_percent_def sum_list_indicator count_not_flat_def q_def)
qed

lemma total_abs_percent_all_flat:
  assumes "count_not_flat xs = 0"
  shows "total_abs_percent (DetermineTargetPercent xs) = 0"
proof -
  have "\<forall>p \<in> set (DetermineTargetPercent xs). snd p = 0"
  proof
    fix p assume "p \<in> set (DetermineTargetPercent xs)"
    then have "(fst p, snd p) \<in> set (fold (\<lambda>k result. AList.update k
                  (of_int (direction_value (Direction k)) * equal_percent (count_not_flat xs)) result) xs [])"
      by (simp add: DetermineTargetPercent_def Let_def)
    from fold_update_values [OF this] show "snd p = 0"
      using assms by (simp add: equal_percent_def)
  qed
  then have "\<forall>v \<in> set (abs_values (DetermineTargetPercent xs)). v = 0"
    by (auto simp: abs_values_def)
  then show ?thesis
    unfolding total_abs_percent_def by (rule sum_list_all_zero)
qed

text \<open>
  Values of the examples.
\<close>

lemma example_insight_inj:
  "example_insight j s d = example_insight k s' d' \<longleftrightarrow> j = k \<and> s = s' \<and> d = d'"
  by (auto simp: example_insight_def)

lemma distinct_up_insights: "distinct (up_insights n)"
  by (simp add: up_insights_def distinct_map inj_on_def example_insight_inj)

lemma count_up_insights: "count_not_flat (up_insights n) = n"
  by (simp add: up_insights_def count_not_flat_def example_insight_def)

lemma abs_values_up_insights:
  "abs_values (DetermineTargetPercent (up_insights n)) = replicate n (equal_percent n)"
proof -
  have q0: "0 \<le> equal_percent n"
    using equal_percent_pos [of n] by (cases "n = 0") (simp_all add: equal_percent_def)
  have "DetermineTargetPercent (up_insights n)
          = map (\<lambda>insight. (insight, equal_percent n)) (up_insights n)"
    unfolding DetermineTargetPercent_distinct [OF distinct_up_insights] count_up_insights
    by (simp add: up_insights_def example_insight_def)
  then have "abs_values (DetermineTargetPercent (up_insights n))
          = map (\<lambda>insight. equal_percent n) (up_insights n)"
    using q0 by (simp add: abs_values_def comp_def)
  also have "\<dots> = replicate n (equal_percent n)"
    by (simp add: map_replicate_const up_insights_def)
  finally show ?thesis .
qed

lemma equal_percent_1: "equal_percent 1 = 1"
  by code_simp

lemma equal_percent_2: "equal_percent 2 = 1 / 2"
  by code_simp

lemma equal_percent_49: "equal_percent 49 = 5882252574524729 / 288230376151711744"
  by code_simp

lemma binary64_sum_49:
  "binary64 (288230376151711721 / 288230376151711744) = 9007199254740991 / 9007199254740992"
  by code_simp

text \<open>
  The 49 additions of Python's \<^verbatim>\<open>sum\<close> over the doubles \<^verbatim>\<open>1.0 / 49\<close>, each with the significand
  of its result.
\<close>

lemma float_sum_49:
  "float_sum (replicate 49 (5882252574524729 / 288230376151711744)) = 4503599627370499 / 4503599627370496"
proof -
  have s1: "binary64 (0 + 5882252574524729 / 288230376151711744) = 5882252574524729 / 288230376151711744"
    using binary64_certificate [of "0 + 5882252574524729 / 288230376151711744" 58 5882252574524729]
    by simp
  have s2: "binary64 (5882252574524729 / 288230376151711744 + 5882252574524729 / 288230376151711744) = 5882252574524729 / 144115188075855872"
    using binary64_certificate [of "5882252574524729 / 288230376151711744 + 5882252574524729 / 288230376151711744" 57 5882252574524729]
    by simp
  have s3: "binary64 (5882252574524729 / 144115188075855872 + 5882252574524729 / 288230376151711744) = 4411689430893547 / 72057594037927936"
    by code_simp
  have s4: "binary64 (4411689430893547 / 72057594037927936 + 5882252574524729 / 288230376151711744) = 5882252574524729 / 72057594037927936"
    using binary64_certificate [of "4411689430893547 / 72057594037927936 + 5882252574524729 / 288230376151711744" 56 5882252574524729]
    by simp
  have s5: "binary64 (5882252574524729 / 72057594037927936 + 5882252574524729 / 288230376151711744) = 7352815718155911 / 72057594037927936"
    using binary64_certificate [of "5882252574524729 / 72057594037927936 + 5882252574524729 / 288230376151711744" 56 7352815718155911]
    by simp
  have s6: "binary64 (7352815718155911 / 72057594037927936 + 5882252574524729 / 288230376151711744) = 8823378861787093 / 72057594037927936"
    using binary64_certificate [of "7352815718155911 / 72057594037927936 + 5882252574524729 / 288230376151711744" 56 8823378861787093]
    by simp
  have s7: "binary64 (8823378861787093 / 72057594037927936 + 5882252574524729 / 288230376151711744) = 2573485501354569 / 18014398509481984"
    using binary64_certificate [of "8823378861787093 / 72057594037927936 + 5882252574524729 / 288230376151711744" 55 5146971002709138]
    by simp
  have s8: "binary64 (2573485501354569 / 18014398509481984 + 5882252574524729 / 288230376151711744) = 5882252574524729 / 36028797018963968"
    using binary64_certificate [of "2573485501354569 / 18014398509481984 + 5882252574524729 / 288230376151711744" 55 5882252574524729]
    by simp
  have s9: "binary64 (5882252574524729 / 36028797018963968 + 5882252574524729 / 288230376151711744) = 206797942073135 / 1125899906842624"
    using binary64_certificate [of "5882252574524729 / 36028797018963968 + 5882252574524729 / 288230376151711744" 55 6617534146340320]
    by simp
  have s10: "binary64 (206797942073135 / 1125899906842624 + 5882252574524729 / 288230376151711744) = 7352815718155911 / 36028797018963968"
    using binary64_certificate [of "206797942073135 / 1125899906842624 + 5882252574524729 / 288230376151711744" 55 7352815718155911]
    by simp
  have s11: "binary64 (7352815718155911 / 36028797018963968 + 5882252574524729 / 288230376151711744) = 4044048644985751 / 18014398509481984"
    using binary64_certificate [of "7352815718155911 / 36028797018963968 + 5882252574524729 / 288230376151711744" 55 8088097289971502]
    by simp
  have s12: "binary64 (4044048644985751 / 18014398509481984 + 5882252574524729 / 288230376151711744) = 8823378861787093 / 36028797018963968"
    using binary64_certificate [of "4044048644985751 / 18014398509481984 + 5882252574524729 / 288230376151711744" 55 8823378861787093]
    by simp
  have s13: "binary64 (8823378861787093 / 36028797018963968 + 5882252574524729 / 288230376151711744) = 2389665108400671 / 9007199254740992"
    using binary64_certificate [of "8823378861787093 / 36028797018963968 + 5882252574524729 / 288230376151711744" 54 4779330216801342]
    by simp
  have s14: "binary64 (2389665108400671 / 9007199254740992 + 5882252574524729 / 288230376151711744) = 2573485501354569 / 9007199254740992"
    using binary64_certificate [of "2389665108400671 / 9007199254740992 + 5882252574524729 / 288230376151711744" 54 5146971002709138]
    by simp
  have s15: "binary64 (2573485501354569 / 9007199254740992 + 5882252574524729 / 288230376151711744) = 2757305894308467 / 9007199254740992"
    using binary64_certificate [of "2573485501354569 / 9007199254740992 + 5882252574524729 / 288230376151711744" 54 5514611788616934]
    by simp
  have s16: "binary64 (2757305894308467 / 9007199254740992 + 5882252574524729 / 288230376151711744) = 2941126287262365 / 9007199254740992"
    using binary64_certificate [of "2757305894308467 / 9007199254740992 + 5882252574524729 / 288230376151711744" 54 5882252574524730]
    by simp
  have s17: "binary64 (2941126287262365 / 9007199254740992 + 5882252574524729 / 288230376151711744) = 3124946680216263 / 9007199254740992"
    using binary64_certificate [of "2941126287262365 / 9007199254740992 + 5882252574524729 / 288230376151711744" 54 6249893360432526]
    by simp
  have s18: "binary64 (3124946680216263 / 9007199254740992 + 5882252574524729 / 288230376151711744) = 3308767073170161 / 9007199254740992"
    using binary64_certificate [of "3124946680216263 / 9007199254740992 + 5882252574524729 / 288230376151711744" 54 6617534146340322]
    by simp
  have s19: "binary64 (3308767073170161 / 9007199254740992 + 5882252574524729 / 288230376151711744) = 3492587466124059 / 9007199254740992"
    using binary64_certificate [of "3308767073170161 / 9007199254740992 + 5882252574524729 / 288230376151711744" 54 6985174932248118]
    by simp
  have s20: "binary64 (3492587466124059 / 9007199254740992 + 5882252574524729 / 288230376151711744) = 3676407859077957 / 9007199254740992"
    using binary64_certificate [of "3492587466124059 / 9007199254740992 + 5882252574524729 / 288230376151711744" 54 7352815718155914]
    by simp
  have s21: "binary64 (3676407859077957 / 9007199254740992 + 5882252574524729 / 288230376151711744) = 3860228252031855 / 9007199254740992"
    using binary64_certificate [of "3676407859077957 / 9007199254740992 + 5882252574524729 / 288230376151711744" 54 7720456504063710]
    by simp
  have s22: "binary64 (3860228252031855 / 9007199254740992 + 5882252574524729 / 288230376151711744) = 4044048644985753 / 9007199254740992"
    using binary64_certificate [of "3860228252031855 / 9007199254740992 + 5882252574524729 / 288230376151711744" 54 8088097289971506]
    by simp
  have s23: "binary64 (4044048644985753 / 9007199254740992 + 5882252574524729 / 288230376151711744) = 4227869037939651 / 9007199254740992"
    using binary64_certificate [of "4044048644985753 / 9007199254740992 + 5882252574524729 / 288230376151711744" 54 8455738075879302]
    by simp
  have s24: "binary64 (4227869037939651 / 9007199254740992 + 5882252574524729 / 288230376151711744) = 4411689430893549 / 9007199254740992"
    using binary64_certificate [of "4227869037939651 / 9007199254740992 + 5882252574524729 / 288230376151711744" 54 8823378861787098]
    by simp
  have s25: "binary64 (4411689430893549 / 9007199254740992 + 5882252574524729 / 288230376151711744) = 4595509823847447 / 9007199254740992"
    using binary64_certificate [of "4411689430893549 / 9007199254740992 + 5882252574524729 / 288230376151711744" 53 4595509823847447]
    by simp
  have s26: "binary64 (4595509823847447 / 9007199254740992 + 5882252574524729 / 288230376151711744) = 4779330216801345 / 9007199254740992"
    using binary64_certificate [of "4595509823847447 / 9007199254740992 + 5882252574524729 / 288230376151711744" 53 4779330216801345]
    by simp
  have s27: "binary64 (4779330216801345 / 9007199254740992 + 5882252574524729 / 288230376151711744) = 4963150609755243 / 9007199254740992"
    using binary64_certificate [of "4779330216801345 / 9007199254740992 + 5882252574524729 / 288230376151711744" 53 4963150609755243]
    by simp
  have s28: "binary64 (4963150609755243 / 9007199254740992 + 5882252574524729 / 288230376151711744) = 5146971002709141 / 9007199254740992"
    using binary64_certificate [of "4963150609755243 / 9007199254740992 + 5882252574524729 / 288230376151711744" 53 5146971002709141]
    by simp
  have s29: "binary64 (5146971002709141 / 9007199254740992 + 5882252574524729 / 288230376151711744) = 5330791395663039 / 9007199254740992"
    using binary64_certificate [of "5146971002709141 / 9007199254740992 + 5882252574524729 / 288230376151711744" 53 5330791395663039]
    by simp
  have s30: "binary64 (5330791395663039 / 9007199254740992 + 5882252574524729 / 288230376151711744) = 5514611788616937 / 9007199254740992"
    using binary64_certificate [of "5330791395663039 / 9007199254740992 + 5882252574524729 / 288230376151711744" 53 5514611788616937]
    by simp
  have s31: "binary64 (5514611788616937 / 9007199254740992 + 5882252574524729 / 288230376151711744) = 5698432181570835 / 9007199254740992"
    using binary64_certificate [of "5514611788616937 / 9007199254740992 + 5882252574524729 / 288230376151711744" 53 5698432181570835]
    by simp
  have s32: "binary64 (5698432181570835 / 9007199254740992 + 5882252574524729 / 288230376151711744) = 5882252574524733 / 9007199254740992"
    using binary64_certificate [of "5698432181570835 / 9007199254740992 + 5882252574524729 / 288230376151711744" 53 5882252574524733]
    by simp
  have s33: "binary64 (5882252574524733 / 9007199254740992 + 5882252574524729 / 288230376151711744) = 6066072967478631 / 9007199254740992"
    using binary64_certificate [of "5882252574524733 / 9007199254740992 + 5882252574524729 / 288230376151711744" 53 6066072967478631]
    by simp
  have s34: "binary64 (6066072967478631 / 9007199254740992 + 5882252574524729 / 288230376151711744) = 6249893360432529 / 9007199254740992"
    using binary64_certificate [of "6066072967478631 / 9007199254740992 + 5882252574524729 / 288230376151711744" 53 6249893360432529]
    by simp
  have s35: "binary64 (6249893360432529 / 9007199254740992 + 5882252574524729 / 288230376151711744) = 6433713753386427 / 9007199254740992"
    using binary64_certificate [of "6249893360432529 / 9007199254740992 + 5882252574524729 / 288230376151711744" 53 6433713753386427]
    by simp
  have s36: "binary64 (6433713753386427 / 9007199254740992 + 5882252574524729 / 288230376151711744) = 6617534146340325 / 9007199254740992"
    using binary64_certificate [of "6433713753386427 / 9007199254740992 + 5882252574524729 / 288230376151711744" 53 6617534146340325]
    by simp
  have s37: "binary64 (6617534146340325 / 9007199254740992 + 5882252574524729 / 288230376151711744) = 6801354539294223 / 9007199254740992"
    using binary64_certificate [of "6617534146340325 / 9007199254740992 + 5882252574524729 / 288230376151711744" 53 6801354539294223]
    by simp
  have s38: "binary64 (6801354539294223 / 9007199254740992 + 5882252574524729 / 288230376151711744) = 6985174932248121 / 9007199254740992"
    using binary64_certificate [of "6801354539294223 / 9007199254740992 + 5882252574524729 / 288230376151711744" 53 6985174932248121]
    by simp
  have s39: "binary64 (6985174932248121 / 9007199254740992 + 5882252574524729 / 288230376151711744) = 7168995325202019 / 9007199254740992"
    using binary64_certificate [of "6985174932248121 / 9007199254740992 + 5882252574524729 / 288230376151711744" 53 7168995325202019]
    by simp
  have s40: "binary64 (7168995325202019 / 9007199254740992 + 5882252574524729 / 288230376151711744) = 7352815718155917 / 9007199254740992"
    using binary64_certificate [of "7168995325202019 / 9007199254740992 + 5882252574524729 / 288230376151711744" 53 7352815718155917]
    by simp
  have s41: "binary64 (7352815718155917 / 9007199254740992 + 5882252574524729 / 288230376151711744) = 7536636111109815 / 9007199254740992"
    using binary64_certificate [of "7352815718155917 / 9007199254740992 + 5882252574524729 / 288230376151711744" 53 7536636111109815]
    by simp
  have s42: "binary64 (7536636111109815 / 9007199254740992 + 5882252574524729 / 288230376151711744) = 7720456504063713 / 9007199254740992"
    using binary64_certificate [of "7536636111109815 / 9007199254740992 + 5882252574524729 / 288230376151711744" 53 7720456504063713]
    by simp
  have s43: "binary64 (7720456504063713 / 9007199254740992 + 5882252574524729 / 288230376151711744) = 7904276897017611 / 9007199254740992"
    using binary64_certificate [of "7720456504063713 / 9007199254740992 + 5882252574524729 / 288230376151711744" 53 7904276897017611]
    by simp
  have s44: "binary64 (7904276897017611 / 9007199254740992 + 5882252574524729 / 288230376151711744) = 8088097289971509 / 9007199254740992"
    using binary64_certificate [of "7904276897017611 / 9007199254740992 + 5882252574524729 / 288230376151711744" 53 8088097289971509]
    by simp
  have s45: "binary64 (8088097289971509 / 9007199254740992 + 5882252574524729 / 288230376151711744) = 8271917682925407 / 9007199254740992"
    using binary64_certificate [of "8088097289971509 / 9007199254740992 + 5882252574524729 / 288230376151711744" 53 8271917682925407]
    by simp
  have s46: "binary64 (8271917682925407 / 9007199254740992 + 5882252574524729 / 288230376151711744) = 8455738075879305 / 9007199254740992"
    using binary64_certificate [of "8271917682925407 / 9007199254740992 + 5882252574524729 / 288230376151711744" 53 8455738075879305]
    by simp
  have s47: "binary64 (8455738075879305 / 9007199254740992 + 5882252574524729 / 288230376151711744) = 8639558468833203 / 9007199254740992"
    using binary64_certificate [of "8455738075879305 / 9007199254740992 + 5882252574524729 / 288230376151711744" 53 8639558468833203]
    by simp
  have s48: "binary64 (8639558468833203 / 9007199254740992 + 5882252574524729 / 288230376151711744) = 8823378861787101 / 9007199254740992"
    using binary64_certificate [of "8639558468833203 / 9007199254740992 + 5882252574524729 / 288230376151711744" 53 8823378861787101]
    by simp
  have s49: "binary64 (8823378861787101 / 9007199254740992 + 5882252574524729 / 288230376151711744) = 4503599627370499 / 4503599627370496"
    using binary64_certificate [of "8823378861787101 / 9007199254740992 + 5882252574524729 / 288230376151711744" 52 4503599627370499]
    by simp
  show ?thesis
    unfolding float_sum_def
    by (simp only: eval_nat_numeral BitM.simps replicate.simps foldl.simps
        s1 s2 s3 s4 s5 s6 s7 s8 s9 s10 s11 s12 s13 s14 s15 s16 s17 s18 s19 s20 s21 s22
        s23 s24 s25 s26 s27 s28 s29 s30 s31 s32 s33 s34 s35 s36 s37 s38 s39 s40 s41 s42
        s43 s44 s45 s46 s47 s48 s49)
qed

lemma equal_percent_twice: "equal_percent (Suc (Suc 0)) = 1 / 2"
  using equal_percent_2 by (simp add: numeral_2_eq_2)

lemma same_insight_twice:
  "DetermineTargetPercent [example_insight 0 ''AAA'' Up, example_insight 0 ''AAA'' Up]
     = [(example_insight 0 ''AAA'' Up, 1 / 2)]"
  by (simp add: DetermineTargetPercent_def count_not_flat_def example_insight_def equal_percent_twice)

lemma distinct_example_insights: "distinct example_insights"
  by (simp add: example_insights_def example_insight_inj)

lemma count_example_insights: "count_not_flat example_insights = 2"
  by (simp add: example_insights_def count_not_flat_def example_insight_def)

text \<open>
  Claim C1: in the dict \<^verbatim>\<open>DetermineTargetPercent\<close> returns for a list with \<open>N\<close> insights that
  are not flat, an insight of the list that is not flat has a percent whose absolute value is
  the quotient \<^verbatim>\<open>1.0 / N\<close> the code computes, positive for Up and negative for Down. That
  quotient is the double nearest to the fraction \<open>1 / N\<close>: for \<open>N\<close> below \<open>2 ^ 53\<close> it differs
  from the fraction by at most \<open>1 / (N * 2 ^ 53)\<close>.
\<close>

theorem DetermineTargetPercent_equal_weight:
  assumes "insight \<in> set lastActive" and "Direction insight \<noteq> Flat"
  shows "\<exists>percent. map_of (DetermineTargetPercent lastActive) insight = Some percent
           \<and> \<bar>percent\<bar> = float_truediv_int 1 (int (count_not_flat lastActive))
           \<and> (Direction insight = Up \<longrightarrow> 0 < percent)
           \<and> (Direction insight = Down \<longrightarrow> percent < 0)
           \<and> (count_not_flat lastActive < 2 ^ 53 \<longrightarrow>
                 \<bar>\<bar>percent\<bar> - 1 / of_nat (count_not_flat lastActive)\<bar>
                   \<le> 1 / (of_nat (count_not_flat lastActive) * 2 ^ 53))"
proof -
  define N where "N = count_not_flat lastActive"
  define q where "q = float_truediv_int 1 (int N)"
  have N0: "0 < N" unfolding N_def using assms by (rule count_not_flat_pos)
  have q0: "0 < q" unfolding q_def using N0 by (intro float_truediv_int_pos) simp
  have eq: "equal_percent N = q" using N0 by (simp add: equal_percent_def q_def)
  have look: "map_of (DetermineTargetPercent lastActive) insight
                = Some (of_int (direction_value (Direction insight)) * q)"
    using assms(1) by (simp add: DetermineTargetPercent_lookup eq flip: N_def)
  have a: "\<bar>of_int (direction_value (Direction insight)) * q\<bar> = q"
    using assms(2) q0 by (cases "Direction insight") (simp_all add: abs_mult)
  have near: "N < 2 ^ 53 \<longrightarrow> \<bar>q - 1 / of_nat N\<bar> \<le> 1 / (of_nat N * 2 ^ 53)"
  proof
    assume "N < 2 ^ 53"
    then have "int N < 2 ^ 53" by (metis of_nat_less_iff of_nat_numeral of_nat_power)
    moreover have "0 < int N" using N0 by simp
    ultimately have "\<bar>float_truediv_int 1 (int N) - 1 / of_int (int N)\<bar> \<le> 1 / (of_int (int N) * 2 ^ 53)"
      by (intro float_truediv_int_error)
    then show "\<bar>q - 1 / of_nat N\<bar> \<le> 1 / (of_nat N * 2 ^ 53)" by (simp add: q_def)
  qed
  show ?thesis
    unfolding N_def [symmetric] q_def [symmetric]
    using look a near q0 by (cases "Direction insight") (auto simp: )
qed

theorem DetermineTargetPercent_equal_weight_witness:
  "example_insight 1 ''BBB'' Down \<in> set example_insights
   \<and> Direction (example_insight 1 ''BBB'' Down) \<noteq> Flat
   \<and> map_of (DetermineTargetPercent example_insights) (example_insight 1 ''BBB'' Down) = Some (- 1 / 2)"
proof -
  have member: "example_insight 1 ''BBB'' Down \<in> set example_insights"
    by (simp add: example_insights_def)
  have direction: "Direction (example_insight 1 ''BBB'' Down) \<noteq> Flat"
    by (simp add: example_insight_def)
  have half: "float_truediv_int 1 2 = 1 / 2"
    using equal_percent_2 by (simp add: equal_percent_def)
  from DetermineTargetPercent_equal_weight [OF member direction] obtain percent where
    p: "map_of (DetermineTargetPercent example_insights) (example_insight 1 ''BBB'' Down) = Some percent"
    and a: "\<bar>percent\<bar> = 1 / 2" and n: "percent < 0"
    by (auto simp: count_example_insights half example_insight_def)
  from a n have "percent = - 1 / 2" by linarith
  with p member direction show ?thesis by simp
qed

text \<open>
  Claim C10, as the code has it: every flat insight of the list is assigned exactly 0; the
  absolute values of the dict sum to 0 when no insight is not flat; and for a list of \<open>N\<close>
  different insights that are not flat they sum to \<open>N\<close> times the double \<^verbatim>\<open>1.0 / N\<close>, which is
  within \<open>1 / 2 ^ 53\<close> of 1 for \<open>N\<close> below \<open>2 ^ 53\<close> and need not be 1.
\<close>

theorem DetermineTargetPercent_flat_and_total:
  "(\<forall>insight \<in> set lastActive. Direction insight = Flat \<longrightarrow>
       map_of (DetermineTargetPercent lastActive) insight = Some 0)
   \<and> (count_not_flat lastActive = 0 \<longrightarrow> total_abs_percent (DetermineTargetPercent lastActive) = 0)
   \<and> (distinct lastActive \<longrightarrow>
         total_abs_percent (DetermineTargetPercent lastActive)
           = of_nat (count_not_flat lastActive) * float_truediv_int 1 (int (count_not_flat lastActive)))
   \<and> (distinct lastActive \<and> 0 < count_not_flat lastActive \<and> count_not_flat lastActive < 2 ^ 53 \<longrightarrow>
         \<bar>total_abs_percent (DetermineTargetPercent lastActive) - 1\<bar> \<le> 1 / 2 ^ 53)"
proof (intro conjI ballI impI)
  fix insight assume "insight \<in> set lastActive" "Direction insight = Flat"
  then show "map_of (DetermineTargetPercent lastActive) insight = Some 0"
    by (simp add: DetermineTargetPercent_lookup)
next
  assume "count_not_flat lastActive = 0"
  then show "total_abs_percent (DetermineTargetPercent lastActive) = 0"
    by (rule total_abs_percent_all_flat)
next
  assume d: "distinct lastActive"
  show "total_abs_percent (DetermineTargetPercent lastActive)
           = of_nat (count_not_flat lastActive) * float_truediv_int 1 (int (count_not_flat lastActive))"
    by (cases "count_not_flat lastActive = 0")
       (simp_all add: total_abs_percent_distinct [OF d] equal_percent_def)
next
  assume "distinct lastActive \<and> 0 < count_not_flat lastActive \<and> count_not_flat lastActive < 2 ^ 53"
  then show "\<bar>total_abs_percent (DetermineTargetPercent lastActive) - 1\<bar> \<le> 1 / 2 ^ 53"
    using equal_percent_near [of "count_not_flat lastActive"]
    by (simp add: total_abs_percent_distinct)
qed

theorem DetermineTargetPercent_flat_and_total_witness:
  "distinct example_insights \<and> 0 < count_not_flat example_insights
   \<and> count_not_flat example_insights < 2 ^ 53
   \<and> map_of (DetermineTargetPercent example_insights) (example_insight 2 ''CCC'' Flat) = Some 0
   \<and> total_abs_percent (DetermineTargetPercent example_insights) = 1
   \<and> count_not_flat [example_insight 2 ''CCC'' Flat] = 0
   \<and> total_abs_percent (DetermineTargetPercent [example_insight 2 ''CCC'' Flat]) = 0"
proof -
  have half: "float_truediv_int 1 2 = 1 / 2"
    using equal_percent_2 by (simp add: equal_percent_def)
  have flat: "count_not_flat [example_insight 2 ''CCC'' Flat] = 0"
    by (simp add: count_not_flat_def example_insight_def)
  from DetermineTargetPercent_flat_and_total [of example_insights] DetermineTargetPercent_flat_and_total [of "[example_insight 2 ''CCC'' Flat]"] show ?thesis
    by (simp add: distinct_example_insights count_example_insights half flat)
       (simp add: example_insights_def example_insight_def)
qed

text \<open>
  For 49 different insights of direction Up the sum is not 1: the 49 doubles \<^verbatim>\<open>1.0 / 49\<close> add
  up to a number below 1, that number rounded to a double is the double just below 1, and
  Python's \<^verbatim>\<open>sum\<close>, which rounds after each addition, ends above 1. For a list that holds one
  insight twice the dict has one item, and the sum is one half.
\<close>

theorem DetermineTargetPercent_flat_and_total_counterexample:
  "distinct (up_insights 49) \<and> 0 < count_not_flat (up_insights 49)
   \<and> total_abs_percent (DetermineTargetPercent (up_insights 49))
        = 288230376151711721 / 288230376151711744
   \<and> binary64 (total_abs_percent (DetermineTargetPercent (up_insights 49)))
        = 9007199254740991 / 9007199254740992
   \<and> float_sum (abs_values (DetermineTargetPercent (up_insights 49)))
        = 4503599627370499 / 4503599627370496
   \<and> 0 < count_not_flat [example_insight 0 ''AAA'' Up, example_insight 0 ''AAA'' Up]
   \<and> total_abs_percent
         (DetermineTargetPercent [example_insight 0 ''AAA'' Up, example_insight 0 ''AAA'' Up]) = 1 / 2"
proof -
  have total: "total_abs_percent (DetermineTargetPercent (up_insights 49))
                 = 288230376151711721 / 288230376151711744"
    by (simp add: total_abs_percent_def abs_values_up_insights equal_percent_49 sum_list_replicate)
  have python_sum: "float_sum (abs_values (DetermineTargetPercent (up_insights 49)))
                 = 4503599627370499 / 4503599627370496"
    by (simp only: abs_values_up_insights equal_percent_49 float_sum_49)
  have twice: "total_abs_percent
         (DetermineTargetPercent [example_insight 0 ''AAA'' Up, example_insight 0 ''AAA'' Up]) = 1 / 2"
    by (simp add: same_insight_twice total_abs_percent_def abs_values_def)
  have counted: "0 < count_not_flat [example_insight 0 ''AAA'' Up, example_insight 0 ''AAA'' Up]"
    by (simp add: count_not_flat_def example_insight_def)
  show ?thesis
    by (simp only: total python_sum twice binary64_sum_49 count_up_insights distinct_up_insights
        counted) simp
qed

section \<open>Properties of CreateTargets\<close>

text \<open>
  The loop over the last active insights appends the targets that are not \<^verbatim>\<open>None\<close>, in the
  order of the insights, and the keys of \<^verbatim>\<open>errorSymbols\<close> after it are those before it and the
  symbols of the insights whose target is \<^verbatim>\<open>None\<close>.
\<close>

lemma percent_targets_appends:
  "percent_targets algorithm percents lastActive (targets0, errors0) = Inr (targets1, errors1)
    \<Longrightarrow> targets1 = targets0 @ filter (\<lambda>target. target \<noteq> None)
          (map (\<lambda>insight. PortfolioTarget_Percent algorithm (Symbol insight)
                  (the (map_of percents insight))) lastActive)"
proof (induction lastActive arbitrary: targets0 errors0)
  case Nil
  then show ?case by simp
next
  case (Cons insight rest)
  from Cons.prems obtain percent where p: "map_of percents insight = Some percent"
    by (auto split: option.splits)
  show ?case
  proof (cases "PortfolioTarget_Percent algorithm (Symbol insight) percent")
    case None
    with Cons.prems p have "percent_targets algorithm percents rest
        (targets0, AList.update (Symbol insight) (Symbol insight) errors0) = Inr (targets1, errors1)"
      by (simp add: Let_def)
    from Cons.IH [OF this] None p show ?thesis by simp
  next
    case (Some target)
    with Cons.prems p have "percent_targets algorithm percents rest
        (targets0 @ [Some target], errors0) = Inr (targets1, errors1)"
      by (simp add: Let_def)
    from Cons.IH [OF this] Some p show ?thesis by simp
  qed
qed

lemma percent_targets_error_keys:
  "percent_targets algorithm percents lastActive (targets0, errors0) = Inr (targets1, errors1)
    \<Longrightarrow> (map_of errors1 symbol = None) =
          (map_of errors0 symbol = None
           \<and> symbol \<notin> Symbol ` set (filter (\<lambda>insight. PortfolioTarget_Percent algorithm (Symbol insight)
                                                   (the (map_of percents insight)) = None) lastActive))"
proof (induction lastActive arbitrary: targets0 errors0)
  case Nil
  then show ?case by simp
next
  case (Cons insight rest)
  from Cons.prems obtain percent where p: "map_of percents insight = Some percent"
    by (auto split: option.splits)
  show ?case
  proof (cases "PortfolioTarget_Percent algorithm (Symbol insight) percent")
    case None
    with Cons.prems p have "percent_targets algorithm percents rest
        (targets0, AList.update (Symbol insight) (Symbol insight) errors0) = Inr (targets1, errors1)"
      by (simp add: Let_def)
    from Cons.IH [OF this] None p show ?thesis by (auto simp: update_conv')
  next
    case (Some target)
    with Cons.prems p have "percent_targets algorithm percents rest
        (targets0 @ [Some target], errors0) = Inr (targets1, errors1)"
      by (simp add: Let_def)
    from Cons.IH [OF this] Some p show ?thesis by simp
  qed
qed

text \<open>
  The targets of a call that does not return at once: the flatten targets of the removed
  symbols, then the targets created from the insights, then those of the expired insights.
\<close>

lemma CreateTargets_shape:
  assumes "CreateTargets host self algorithm insights = Inr (targets, self')"
    and "\<not> (length insights = 0 \<and> UtcTime algorithm \<le> nextExpiryTime self \<and> removedSymbols self = None)"
  shows "\<exists>created errorSymbols collection expired.
           targets = (case removedSymbols self of None \<Rightarrow> []
                      | Some symbols \<Rightarrow> map (\<lambda>symbol. Some \<lparr>TargetSymbol = symbol, Quantity = 0\<rparr>) symbols)
                     @ created
                     @ expiredTargets host collection (UtcTime algorithm) errorSymbols expired
           \<and> None \<notin> set created"
proof -
  let ?t1 = "case removedSymbols self of None \<Rightarrow> []
             | Some symbols \<Rightarrow> map (\<lambda>symbol. Some \<lparr>TargetSymbol = symbol, Quantity = 0\<rparr>) symbols"
  let ?collection1 = "fold (\<lambda>insight c. Add host c insight) insights (insightCollection self)"
  let ?last = "lastActiveInsights (GetActiveInsights host ?collection1 (UtcTime algorithm))"
  obtain expired collection2 where
    rem: "RemoveExpiredInsights host ?collection1 (UtcTime algorithm) = (expired, collection2)"
    by (cases "RemoveExpiredInsights host ?collection1 (UtcTime algorithm)")
  from assms obtain should where should: "ShouldCreateTargets self algorithm ?last = Inr should"
    by (auto simp: CreateTargets_def Let_def split: sum.splits)
  show ?thesis
  proof (cases should)
    case False
    with assms should rem
    have "targets = ?t1 @ [] @ expiredTargets host collection2 (UtcTime algorithm) [] expired"
      by (auto simp: CreateTargets_def Let_def split: sum.splits)
    then show ?thesis by (metis empty_iff list.set(1))
  next
    case True
    with assms should rem obtain targets2 errs where
      pt: "percent_targets algorithm (DetermineTargetPercent ?last) ?last (?t1, []) = Inr (targets2, errs)"
      and t: "targets = targets2 @ expiredTargets host collection2 (UtcTime algorithm) errs expired"
      by (auto simp: CreateTargets_def Let_def split: sum.splits prod.splits)
    from percent_targets_appends [OF pt] obtain created where
      "targets2 = ?t1 @ created" "None \<notin> set created" by auto
    with t show ?thesis by auto
  qed
qed

text \<open>
  \<^verbatim>\<open>CreateTargets\<close> returns when the host knows the symbols of the last active insights and,
  where the model rebalances, \<^verbatim>\<open>rebalancingFunc\<close> is set and its result is a date.
\<close>

lemma insight_asks_rebalance_returns:
  "\<forall>insight \<in> set lastActive. map_of (Portfolio algorithm) (Symbol insight) \<noteq> None
    \<Longrightarrow> \<exists>should. insight_asks_rebalance algorithm lastActive = Inr should"
  by (induction lastActive) (auto split: option.splits)

lemma percent_targets_returns:
  "\<forall>insight \<in> set lastActive. map_of percents insight \<noteq> None
    \<Longrightarrow> \<exists>result. percent_targets algorithm percents lastActive (targets, errorSymbols) = Inr result"
proof (induction lastActive arbitrary: targets errorSymbols)
  case Nil
  then show ?case by simp
next
  case (Cons insight rest)
  then obtain percent where "map_of percents insight = Some percent" by auto
  moreover from Cons.prems have "\<forall>i \<in> set rest. map_of percents i \<noteq> None" by simp
  ultimately show ?case using Cons.IH by (simp add: Let_def)
qed

lemma CreateTargets_returns:
  assumes rebalance: "rebalancing self \<longrightarrow>
        (\<exists>delta. rebalancingFunc self = Some delta \<and> UtcTime algorithm + delta \<le> datetime_max)"
    and known: "\<forall>insight \<in> set (lastActiveInsights (GetActiveInsights host
          (fold (\<lambda>insight c. Add host c insight) insights (insightCollection self))
          (UtcTime algorithm))). map_of (Portfolio algorithm) (Symbol insight) \<noteq> None"
  shows "\<exists>targets self'. CreateTargets host self algorithm insights = Inr (targets, self')"
proof -
  let ?c1 = "fold (\<lambda>insight c. Add host c insight) insights (insightCollection self)"
  let ?last = "lastActiveInsights (GetActiveInsights host ?c1 (UtcTime algorithm))"
  let ?t1 = "case removedSymbols self of None \<Rightarrow> []
             | Some symbols \<Rightarrow> map (\<lambda>symbol. Some \<lparr>TargetSymbol = symbol, Quantity = 0\<rparr>) symbols"
  have "\<exists>should. ShouldCreateTargets self algorithm ?last = Inr should"
    using insight_asks_rebalance_returns [OF known] by (auto simp: ShouldCreateTargets_def)
  then obtain should where should: "ShouldCreateTargets self algorithm ?last = Inr should" ..
  have "\<forall>insight \<in> set ?last. map_of (DetermineTargetPercent ?last) insight \<noteq> None"
    by (simp add: DetermineTargetPercent_lookup)
  from percent_targets_returns [OF this, of algorithm ?t1 "[]"]
  obtain targets2 errs where
    loop: "percent_targets algorithm (DetermineTargetPercent ?last) ?last (?t1, []) = Inr (targets2, errs)"
    by fastforce
  have "\<exists>t. update_rebalancing_time self algorithm = Inr t"
    using rebalance by (auto simp: update_rebalancing_time_def datetime_add_def)
  then obtain t where time: "update_rebalancing_time self algorithm = Inr t" ..
  obtain expired c2 where rem: "RemoveExpiredInsights host ?c1 (UtcTime algorithm) = (expired, c2)"
    by (cases "RemoveExpiredInsights host ?c1 (UtcTime algorithm)")
  show ?thesis
    by (cases should) (simp_all add: CreateTargets_def Let_def should loop time rem)
qed

text \<open>
  Calls of the examples.
\<close>

lemma example_removed_targets:
  "CreateTargets ListInsightCollection
     (OnSecuritiesChanged ListInsightCollection example_model example_changes) example_algorithm []
   = Inr ([Some \<lparr>TargetSymbol = ''BBB'', Quantity = 0\<rparr>, Some \<lparr>TargetSymbol = ''CCC'', Quantity = 0\<rparr>],
          example_model\<lparr>removedSymbols := None\<rparr>)"
  by (simp add: CreateTargets_def OnSecuritiesChanged_def ListInsightCollection_def example_model_def
      example_changes_def example_algorithm_def Let_def lastActiveInsights_def expiredTargets_def
      ShouldCreateTargets_def UTCMIN_def)

lemma example_percents:
  "DetermineTargetPercent [example_insight 0 ''AAA'' Up] = [(example_insight 0 ''AAA'' Up, 1)]"
proof -
  have "equal_percent (Suc 0) = 1" using equal_percent_1 by simp
  then show ?thesis
    by (simp add: DetermineTargetPercent_def count_not_flat_def example_insight_def)
qed

lemma example_failed_loop:
  "percent_targets example_algorithm (DetermineTargetPercent [example_insight 0 ''AAA'' Up])
       [example_insight 0 ''AAA'' Up] ([], [])
     = Inr ([], [(''AAA'', ''AAA'')])"
  unfolding example_percents by (simp add: example_insight_def example_algorithm_def)

lemma example_failed_call:
  "CreateTargets ListInsightCollection example_model example_algorithm [example_insight 0 ''AAA'' Up]
     = Inr ([], example_model\<lparr>insightCollection := [example_insight 0 ''AAA'' Up],
                             removedSymbols := None, nextExpiryTime := 100\<rparr>)"
proof -
  have active: "lastActiveInsights [example_insight 0 ''AAA'' Up] = [example_insight 0 ''AAA'' Up]"
    by (simp add: lastActiveInsights_def)
  have should: "ShouldCreateTargets example_model example_algorithm [example_insight 0 ''AAA'' Up] = Inr True"
    by (simp add: ShouldCreateTargets_def example_model_def example_algorithm_def example_insight_def
        no_holding_def UTCMIN_def)
  have collection: "insightCollection example_model = []" "removedSymbols example_model = Some []"
    by (simp_all add: example_model_def)
  have now: "UtcTime example_algorithm = 10" by (simp add: example_algorithm_def)
  have expiry: "IsExpired (example_insight 0 ''AAA'' Up) 10 = False"
    by (simp add: IsExpired_def example_insight_def)
  have rebalance: "update_rebalancing_time example_model example_algorithm = Inr 0"
    by (simp add: update_rebalancing_time_def example_model_def UTCMIN_def)
  show ?thesis
    unfolding CreateTargets_def
    by (simp add: Let_def collection now ListInsightCollection_def expiry active should
        example_failed_loop rebalance expiredTargets_def del: percent_targets.simps)
       (simp add: example_model_def example_insight_def UTCMIN_def)
qed

text \<open>
  Calls with an expired insight. With the first host the insight of \<open>BBB\<close> that closed at 5 is
  expired at 10, and \<open>BBB\<close> gets its flatten target whether or not targets are created. With
  the second host the insight of \<open>AAA\<close> is active and expired in one call; the host computes
  no target for \<open>AAA\<close>, and no flatten target is made for it either.
\<close>

lemma equal_percent_one: "equal_percent (Suc 0) = 1"
  using equal_percent_1 by simp

lemmas example_call_defs =
  CreateTargets_def ListInsightCollection_def EagerExpiryCollection_def example_model_def
  example_past_model_def example_due_model_def example_idle_model_def example_algorithm_def
  example_insight_def due_insight_def past_insight_def no_holding_def UTCMIN_def IsExpired_def
  lastActiveInsights_def ShouldCreateTargets_def DetermineTargetPercent_def count_not_flat_def
  equal_percent_one update_rebalancing_time_def expiredTargets_def Let_def

lemma example_idle_call:
  "CreateTargets ListInsightCollection example_idle_model example_algorithm []
   = Inr ([], example_idle_model)"
  by (simp add: example_call_defs)

lemma example_expired_call:
  "CreateTargets ListInsightCollection example_past_model example_algorithm
     [example_insight 0 ''AAA'' Up]
   = Inr ([Some \<lparr>TargetSymbol = ''BBB'', Quantity = 0\<rparr>],
          example_model\<lparr>insightCollection := [example_insight 0 ''AAA'' Up],
                         removedSymbols := None, nextExpiryTime := 100\<rparr>)"
  by (simp add: example_call_defs)

lemma example_no_rebalance_call:
  "CreateTargets ListInsightCollection example_past_model example_algorithm []
   = Inr ([Some \<lparr>TargetSymbol = ''BBB'', Quantity = 0\<rparr>], example_model\<lparr>removedSymbols := None\<rparr>)"
  by (simp add: example_call_defs)

lemma example_due_call:
  "CreateTargets EagerExpiryCollection example_due_model example_algorithm []
   = Inr ([], example_model\<lparr>removedSymbols := None\<rparr>)"
  by (simp add: example_call_defs)

lemma example_due_values:
  "UtcTime example_algorithm = 10"
  "fold (\<lambda>insight c. Add EagerExpiryCollection c insight) [] (insightCollection example_due_model)
     = [due_insight]"
  "lastActiveInsights (GetActiveInsights EagerExpiryCollection [due_insight] 10) = [due_insight]"
  "RemoveExpiredInsights EagerExpiryCollection [due_insight] 10 = ([due_insight], [])"
  "groupby Symbol [due_insight] = [(''AAA'', [due_insight])]"
  "ShouldCreateTargets example_due_model example_algorithm [due_insight] = Inr True"
  by (simp_all add: example_call_defs)

text \<open>
  Claim C8: with no new insight, the time not past \<^verbatim>\<open>nextExpiryTime\<close> and \<^verbatim>\<open>removedSymbols\<close>
  being \<^verbatim>\<open>None\<close>, \<^verbatim>\<open>CreateTargets\<close> returns the empty list and the model is as it was.
\<close>

theorem CreateTargets_nothing_to_do:
  assumes "insights = []" and "UtcTime algorithm \<le> nextExpiryTime self" and "removedSymbols self = None"
  shows "CreateTargets host self algorithm insights = Inr ([], self)"
  using assms by (simp add: CreateTargets_def)

theorem CreateTargets_nothing_to_do_witness:
  "UtcTime example_algorithm \<le> nextExpiryTime example_idle_model
   \<and> removedSymbols example_idle_model = None
   \<and> CreateTargets ListInsightCollection example_idle_model example_algorithm []
       = Inr ([], example_idle_model)"
proof -
  have time: "UtcTime example_algorithm \<le> nextExpiryTime example_idle_model"
    by (simp add: example_algorithm_def example_idle_model_def)
  have none: "removedSymbols example_idle_model = None"
    by (simp add: example_idle_model_def)
  from CreateTargets_nothing_to_do [OF refl time none, of ListInsightCollection] time none show ?thesis by simp
qed

text \<open>
  Claim C2: when \<^verbatim>\<open>CreateTargets\<close> is called on the model as \<^verbatim>\<open>OnSecuritiesChanged\<close> left it and
  returns, the returned list holds a target of quantity 0 for the symbol of every removed
  security.
\<close>

theorem CreateTargets_flattens_removed:
  assumes "CreateTargets host (OnSecuritiesChanged host self changes) algorithm insights = Inr (targets, self')"
    and "x \<in> set (RemovedSecurities changes)"
  shows "Some \<lparr>TargetSymbol = SecuritySymbol x, Quantity = 0\<rparr> \<in> set targets"
proof -
  let ?s = "OnSecuritiesChanged host self changes"
  have r: "removedSymbols ?s = Some (map SecuritySymbol (RemovedSecurities changes))"
    by (simp add: OnSecuritiesChanged_def Let_def)
  then have "\<not> (length insights = 0 \<and> UtcTime algorithm \<le> nextExpiryTime ?s \<and> removedSymbols ?s = None)"
    by simp
  from CreateTargets_shape [OF assms(1) this] r assms(2) show ?thesis by force
qed

theorem CreateTargets_flattens_removed_witness:
  "CreateTargets ListInsightCollection
     (OnSecuritiesChanged ListInsightCollection example_model example_changes) example_algorithm []
   = Inr ([Some \<lparr>TargetSymbol = ''BBB'', Quantity = 0\<rparr>, Some \<lparr>TargetSymbol = ''CCC'', Quantity = 0\<rparr>],
          example_model\<lparr>removedSymbols := None\<rparr>)
   \<and> \<lparr>SecuritySymbol = ''CCC''\<rparr> \<in> set (RemovedSecurities example_changes)
   \<and> Some \<lparr>TargetSymbol = ''CCC'', Quantity = 0\<rparr>
        \<in> set [Some \<lparr>TargetSymbol = ''BBB'', Quantity = 0\<rparr>, Some \<lparr>TargetSymbol = ''CCC'', Quantity = 0\<rparr>]"
proof -
  have removed: "\<lparr>SecuritySymbol = ''CCC''\<rparr> \<in> set (RemovedSecurities example_changes)"
    by (simp add: example_changes_def)
  from CreateTargets_flattens_removed [OF example_removed_targets removed] example_removed_targets removed
  show ?thesis by simp
qed

text \<open>
  Claim C3, as the code has it: a \<^verbatim>\<open>None\<close> that \<^verbatim>\<open>PortfolioTarget.Percent\<close> yields is not passed
  on, and the code of the repository handles it. No list \<^verbatim>\<open>CreateTargets\<close> returns holds
  \<^verbatim>\<open>None\<close>. A call that returns at once returns the empty list. Of any other call that creates
  targets, the list returned is: the flatten targets of the removed symbols; then the targets
  of the last active insights that are not \<^verbatim>\<open>None\<close>, in the order of the insights; then a flatten
  target for each group of expired insights whose symbol has no active insight and is not the
  symbol of an insight whose target was \<^verbatim>\<open>None\<close>. Of a call that creates no targets, it is the
  flatten targets of the removed symbols and one for each group of expired insights whose
  symbol has no active insight.
\<close>

theorem CreateTargets_drops_failed_target:
  fixes host :: "'c InsightCollection"
    and self :: "'c CustomEqualWeightingPortfolioConstructionModel"
    and algorithm :: QCAlgorithm
    and insights :: "Insight list"
    and returns_at_once collection1 lastActive target removed expired_groups collection2
  defines "returns_at_once \<equiv>
             length insights = 0 \<and> UtcTime algorithm \<le> nextExpiryTime self \<and> removedSymbols self = None"
    and "collection1 \<equiv> fold (\<lambda>insight c. Add host c insight) insights (insightCollection self)"
    and "lastActive \<equiv> lastActiveInsights (GetActiveInsights host collection1 (UtcTime algorithm))"
    and "target \<equiv> \<lambda>insight. PortfolioTarget_Percent algorithm (Symbol insight)
                      (the (map_of (DetermineTargetPercent lastActive) insight))"
    and "removed \<equiv> case removedSymbols self of
                      None \<Rightarrow> []
                    | Some symbols \<Rightarrow> map (\<lambda>symbol. Some \<lparr>TargetSymbol = symbol, Quantity = 0\<rparr>) symbols"
    and "expired_groups \<equiv>
           groupby Symbol (fst (RemoveExpiredInsights host collection1 (UtcTime algorithm)))"
    and "collection2 \<equiv> snd (RemoveExpiredInsights host collection1 (UtcTime algorithm))"
  assumes returned: "CreateTargets host self algorithm insights = Inr (targets, self')"
  shows "None \<notin> set targets
    \<and> (returns_at_once \<longrightarrow> targets = [])
    \<and> (\<not> returns_at_once \<longrightarrow> ShouldCreateTargets self algorithm lastActive = Inr True \<longrightarrow>
         targets = removed
           @ filter (\<lambda>t. t \<noteq> None) (map target lastActive)
           @ map (\<lambda>(symbol, f). Some \<lparr>TargetSymbol = symbol, Quantity = 0\<rparr>)
               (filter (\<lambda>(symbol, f). \<not> HasActiveInsights host collection2 symbol (UtcTime algorithm)
                          \<and> symbol \<notin> Symbol ` set (filter (\<lambda>insight. target insight = None) lastActive))
                  expired_groups))
    \<and> (\<not> returns_at_once \<longrightarrow> ShouldCreateTargets self algorithm lastActive = Inr False \<longrightarrow>
         targets = removed
           @ map (\<lambda>(symbol, f). Some \<lparr>TargetSymbol = symbol, Quantity = 0\<rparr>)
               (filter (\<lambda>(symbol, f). \<not> HasActiveInsights host collection2 symbol (UtcTime algorithm))
                  expired_groups))"
proof -
  obtain expired c2 where
    rem: "RemoveExpiredInsights host collection1 (UtcTime algorithm) = (expired, c2)"
    by (cases "RemoveExpiredInsights host collection1 (UtcTime algorithm)")
  have groups: "expired_groups = groupby Symbol expired" and c2: "collection2 = c2"
    by (simp_all add: expired_groups_def collection2_def rem)
  have at_once: "targets = []" if returns_at_once
    using that returned by (simp add: CreateTargets_def returns_at_once_def)
  have not_created: "targets = removed @ expiredTargets host c2 (UtcTime algorithm) [] expired"
    if "\<not> returns_at_once" "ShouldCreateTargets self algorithm lastActive = Inr False"
    using that returned rem [unfolded collection1_def]
    by (auto simp: CreateTargets_def Let_def returns_at_once_def lastActive_def collection1_def
        removed_def split: sum.splits)
  have created: "\<exists>targets2 errorSymbols.
      percent_targets algorithm (DetermineTargetPercent lastActive) lastActive (removed, [])
        = Inr (targets2, errorSymbols)
      \<and> targets = targets2 @ expiredTargets host c2 (UtcTime algorithm) errorSymbols expired"
    if "\<not> returns_at_once" "ShouldCreateTargets self algorithm lastActive = Inr True"
    using that returned rem [unfolded collection1_def]
    by (auto simp: CreateTargets_def Let_def returns_at_once_def lastActive_def collection1_def
        removed_def split: sum.splits prod.splits)
  have third: "targets = removed
           @ filter (\<lambda>t. t \<noteq> None) (map target lastActive)
           @ map (\<lambda>(symbol, f). Some \<lparr>TargetSymbol = symbol, Quantity = 0\<rparr>)
               (filter (\<lambda>(symbol, f). \<not> HasActiveInsights host collection2 symbol (UtcTime algorithm)
                          \<and> symbol \<notin> Symbol ` set (filter (\<lambda>insight. target insight = None) lastActive))
                  expired_groups)"
    if "\<not> returns_at_once" "ShouldCreateTargets self algorithm lastActive = Inr True"
  proof -
    from created [OF that] obtain targets2 errorSymbols where
      loop: "percent_targets algorithm (DetermineTargetPercent lastActive) lastActive (removed, [])
               = Inr (targets2, errorSymbols)"
      and t: "targets = targets2 @ expiredTargets host c2 (UtcTime algorithm) errorSymbols expired"
      by blast
    have "targets2 = removed @ filter (\<lambda>t. t \<noteq> None) (map target lastActive)"
      using percent_targets_appends [OF loop] by (simp add: target_def)
    moreover have "expiredTargets host c2 (UtcTime algorithm) errorSymbols expired =
        map (\<lambda>(symbol, f). Some \<lparr>TargetSymbol = symbol, Quantity = 0\<rparr>)
               (filter (\<lambda>(symbol, f). \<not> HasActiveInsights host collection2 symbol (UtcTime algorithm)
                          \<and> symbol \<notin> Symbol ` set (filter (\<lambda>insight. target insight = None) lastActive))
                  expired_groups)"
      unfolding expiredTargets_def groups c2 target_def
      by (simp add: percent_targets_error_keys [OF loop] cong: filter_cong)
    ultimately show ?thesis using t by simp
  qed
  have fourth: "targets = removed
           @ map (\<lambda>(symbol, f). Some \<lparr>TargetSymbol = symbol, Quantity = 0\<rparr>)
               (filter (\<lambda>(symbol, f). \<not> HasActiveInsights host collection2 symbol (UtcTime algorithm))
                  expired_groups)"
    if "\<not> returns_at_once" "ShouldCreateTargets self algorithm lastActive = Inr False"
    using not_created [OF that] by (simp add: expiredTargets_def groups c2)
  have removed: "None \<notin> set removed"
    by (auto simp: removed_def split: option.splits)
  have no_none: "None \<notin> set targets"
  proof (cases returns_at_once)
    case True
    then show ?thesis using at_once by simp
  next
    case False
    from returned False obtain should where
      should: "ShouldCreateTargets self algorithm lastActive = Inr should"
      by (auto simp: CreateTargets_def Let_def returns_at_once_def lastActive_def collection1_def
          split: sum.splits)
    show ?thesis
    proof (cases should)
      case True
      with should have "ShouldCreateTargets self algorithm lastActive = Inr True" by simp
      from third [OF False this] removed show ?thesis by auto
    next
      case no: False
      with should have "ShouldCreateTargets self algorithm lastActive = Inr False" by simp
      from fourth [OF False this] removed show ?thesis by auto
    qed
  qed
  from no_none at_once third fourth show ?thesis by blast
qed

text \<open>
  The four cases at the examples. In the call of the second host the insight of \<open>AAA\<close> is the
  one last active insight, its target is \<^verbatim>\<open>None\<close>, it is the one expired insight, and \<open>AAA\<close> has
  no active insight left after the removal: only the test on \<^verbatim>\<open>errorSymbols\<close> keeps a flatten
  target for \<open>AAA\<close> out of the list, which is empty.
\<close>

theorem CreateTargets_drops_failed_target_witness:
  "CreateTargets EagerExpiryCollection example_due_model example_algorithm []
     = Inr ([], example_model\<lparr>removedSymbols := None\<rparr>)
   \<and> removedSymbols example_due_model \<noteq> None
   \<and> ShouldCreateTargets example_due_model example_algorithm
         (lastActiveInsights (GetActiveInsights EagerExpiryCollection
            (fold (\<lambda>insight c. Add EagerExpiryCollection c insight) []
               (insightCollection example_due_model))
            (UtcTime example_algorithm))) = Inr True
   \<and> filter (\<lambda>(symbol, f). \<not> HasActiveInsights EagerExpiryCollection [] symbol 10
                \<and> symbol \<notin> Symbol ` set (filter (\<lambda>insight.
                      PortfolioTarget_Percent example_algorithm (Symbol insight)
                        (the (map_of (DetermineTargetPercent [due_insight]) insight)) = None)
                      [due_insight]))
        [(''AAA'', [due_insight])] = []
   \<and> filter (\<lambda>(symbol, f). \<not> HasActiveInsights EagerExpiryCollection [] symbol 10)
        [(''AAA'', [due_insight])] = [(''AAA'', [due_insight])]
   \<and> CreateTargets ListInsightCollection example_past_model example_algorithm
         [example_insight 0 ''AAA'' Up]
     = Inr ([Some \<lparr>TargetSymbol = ''BBB'', Quantity = 0\<rparr>],
            example_model\<lparr>insightCollection := [example_insight 0 ''AAA'' Up],
                           removedSymbols := None, nextExpiryTime := 100\<rparr>)
   \<and> ShouldCreateTargets example_past_model example_algorithm [example_insight 0 ''AAA'' Up]
     = Inr True
   \<and> CreateTargets ListInsightCollection example_past_model example_algorithm []
     = Inr ([Some \<lparr>TargetSymbol = ''BBB'', Quantity = 0\<rparr>], example_model\<lparr>removedSymbols := None\<rparr>)
   \<and> ShouldCreateTargets example_past_model example_algorithm [] = Inr False
   \<and> UtcTime example_algorithm \<le> nextExpiryTime example_idle_model
   \<and> removedSymbols example_idle_model = None
   \<and> CreateTargets ListInsightCollection example_idle_model example_algorithm []
     = Inr ([], example_idle_model)"
proof -
  have not_at_once: "\<not> (length ([] :: Insight list) = 0
      \<and> UtcTime example_algorithm \<le> nextExpiryTime example_due_model
      \<and> removedSymbols example_due_model = None)"
    by (simp add: example_due_model_def example_model_def)
  have should: "ShouldCreateTargets example_due_model example_algorithm
         (lastActiveInsights (GetActiveInsights EagerExpiryCollection
            (fold (\<lambda>insight c. Add EagerExpiryCollection c insight) []
               (insightCollection example_due_model))
            (UtcTime example_algorithm))) = Inr True"
    by (simp only: example_due_values)
  note returned = CreateTargets_drops_failed_target [OF example_due_call, THEN conjunct2,
      THEN conjunct2, THEN conjunct1, rule_format, OF not_at_once should]
  have skipped: "filter (\<lambda>(symbol, f). \<not> HasActiveInsights EagerExpiryCollection [] symbol 10
                \<and> symbol \<notin> Symbol ` set (filter (\<lambda>insight.
                      PortfolioTarget_Percent example_algorithm (Symbol insight)
                        (the (map_of (DetermineTargetPercent [due_insight]) insight)) = None)
                      [due_insight]))
        [(''AAA'', [due_insight])] = []"
    using returned [unfolded example_due_values fst_conv snd_conv]
    unfolding Nil_is_append_conv append_is_Nil_conv Nil_is_map_conv map_is_Nil_conv by blast
  have unguarded: "filter (\<lambda>(symbol, f). \<not> HasActiveInsights EagerExpiryCollection [] symbol 10)
        [(''AAA'', [due_insight])] = [(''AAA'', [due_insight])]"
    by (simp add: EagerExpiryCollection_def ListInsightCollection_def)
  have removed: "removedSymbols example_due_model \<noteq> None"
    by (simp add: example_due_model_def example_model_def)
  have expired: "ShouldCreateTargets example_past_model example_algorithm
        [example_insight 0 ''AAA'' Up] = Inr True"
    using CreateTargets_drops_failed_target [OF example_expired_call]
    by (simp add: example_call_defs)
  have no_rebalance: "ShouldCreateTargets example_past_model example_algorithm [] = Inr False"
    using CreateTargets_drops_failed_target [OF example_no_rebalance_call]
    by (simp add: example_call_defs)
  have idle: "UtcTime example_algorithm \<le> nextExpiryTime example_idle_model"
    "removedSymbols example_idle_model = None"
    using CreateTargets_drops_failed_target [OF example_idle_call]
    by (simp_all add: example_call_defs)
  from example_due_call removed should skipped unguarded example_expired_call expired
    example_no_rebalance_call no_rebalance idle example_idle_call
  show ?thesis by blast
qed

text \<open>
  The host computes no target for the symbol of the example: the call returns an empty list,
  so the \<^verbatim>\<open>None\<close> is not in it, and the code's own dict has recorded the symbol.
\<close>

theorem CreateTargets_drops_failed_target_counterexample:
  "PortfolioTarget_Percent example_algorithm (Symbol (example_insight 0 ''AAA'' Up)) 1 = None
   \<and> CreateTargets ListInsightCollection example_model example_algorithm [example_insight 0 ''AAA'' Up]
     = Inr ([], example_model\<lparr>insightCollection := [example_insight 0 ''AAA'' Up],
                             removedSymbols := None, nextExpiryTime := 100\<rparr>)
   \<and> percent_targets example_algorithm (DetermineTargetPercent [example_insight 0 ''AAA'' Up])
       [example_insight 0 ''AAA'' Up] ([], [])
     = Inr ([], [(''AAA'', ''AAA'')])"
proof -
  have "PortfolioTarget_Percent example_algorithm (Symbol (example_insight 0 ''AAA'' Up)) 1 = None"
    by (simp add: example_algorithm_def example_insight_def)
  with example_failed_call example_failed_loop show ?thesis by blast
qed

end
